theory Spec2Isabelle
  imports Complex_Main "HOL-Library.AList" "HOL-Library.Product_Lexorder"
    "HOL-Library.Char_ord" "HOL-Library.List_Lexorder"
begin

section \<open>Values\<close>

text \<open>
  The model of the car advisor server: its tools over the table of car sales and its
  dispatcher. Functions keep the names they have in the source, the private ones
  without their leading underscore.

  A float64 value is modelled by its exact rational value, with the three special values
  of IEEE arithmetic beside it. Comparisons follow IEEE: every comparison with \<open>NaN\<close> is
  false.
\<close>

datatype fnum = NaN | NegInf | Fin rat | PosInf

fun fle :: "fnum \<Rightarrow> fnum \<Rightarrow> bool" where
  "fle NaN _ = False"
| "fle _ NaN = False"
| "fle NegInf _ = True"
| "fle _ PosInf = True"
| "fle (Fin x) (Fin y) = (x \<le> y)"
| "fle (Fin _) NegInf = False"
| "fle PosInf _ = False"

fun flt :: "fnum \<Rightarrow> fnum \<Rightarrow> bool" where
  "flt NaN _ = False"
| "flt _ NaN = False"
| "flt PosInf _ = False"
| "flt _ NegInf = False"
| "flt (Fin x) (Fin y) = (x < y)"
| "flt NegInf _ = True"
| "flt (Fin _) PosInf = True"

definition fge :: "fnum \<Rightarrow> fnum \<Rightarrow> bool" where
  "fge a b = fle b a"

definition fgt :: "fnum \<Rightarrow> fnum \<Rightarrow> bool" where
  "fgt a b = flt b a"

text \<open>
  A number of a numeric column carries the type of its column: an integer of an int64
  column or a float of a float64 column. It enters comparisons with its value.
\<close>

datatype num = IntV int | FloatV fnum

definition val :: "num \<Rightarrow> fnum" where
  "val v = (case v of IntV n \<Rightarrow> Fin (of_int n) | FloatV x \<Rightarrow> x)"

definition is_int :: "num \<Rightarrow> bool" where
  "is_int v = (case v of IntV n \<Rightarrow> True | FloatV x \<Rightarrow> False)"

text \<open>
  Python values as they arrive in the argument object of a tool call (decoded JSON) and
  as the handlers return them. A dict is an association list in insertion order.
\<close>

datatype pyval =
    PNone
  | PBool bool
  | PInt int
  | PFloat fnum
  | PStr string
  | PList "pyval list"
  | PDict "(string \<times> pyval) list"

type_synonym pydict = "(string \<times> pyval) list"

definition py_num :: "num \<Rightarrow> pyval" where
  "py_num v = (case v of IntV n \<Rightarrow> PInt n | FloatV x \<Rightarrow> PFloat x)"

text \<open>Truth value of an object, as \<^verbatim>\<open>if args[col]\<close> tests it.\<close>

fun truthy :: "pyval \<Rightarrow> bool" where
  "truthy PNone = False"
| "truthy (PBool b) = b"
| "truthy (PInt n) = (n \<noteq> 0)"
| "truthy (PFloat x) = (x \<noteq> Fin 0)"
| "truthy (PStr s) = (s \<noteq> [])"
| "truthy (PList xs) = (xs \<noteq> [])"
| "truthy (PDict kvs) = (kvs \<noteq> [])"

text \<open>
  Exceptions. \<open>ValueError\<close> carries the message of an error raised by the program's own
  code; \<open>MissingColumns\<close> is the \<^verbatim>\<open>ValueError\<close> of \<^verbatim>\<open>_check_columns\<close> with the list it
  names; \<open>BadInt\<close> and \<open>BadFloat\<close> stand for whatever \<^verbatim>\<open>int(v)\<close> and \<^verbatim>\<open>float(v)\<close>
  raise on the value (TypeError, ValueError or OverflowError); \<open>OverflowError\<close> is
  raised when a column is compared with an integer too large for the table library;
  \<open>LibraryError\<close> is an exception raised inside the table or model libraries.
\<close>

datatype py_error =
    ValueError string
  | MissingColumns "string list"
  | KeyError string
  | TypeError string
  | BadInt pyval
  | BadFloat pyval
  | OverflowError int
  | LibraryError string

subsection \<open>Dict access\<close>

definition py_in :: "string \<Rightarrow> pydict \<Rightarrow> bool" where
  "py_in k d = (map_of d k \<noteq> None)"

definition py_get :: "pydict \<Rightarrow> string \<Rightarrow> pyval \<Rightarrow> pyval" where
  "py_get d k dflt = (case map_of d k of None \<Rightarrow> dflt | Some v \<Rightarrow> v)"

definition py_item :: "pydict \<Rightarrow> string \<Rightarrow> py_error + pyval" where
  "py_item d k = (case map_of d k of None \<Rightarrow> Inl (KeyError k) | Some v \<Rightarrow> Inr v)"

section \<open>The table\<close>

text \<open>
  A cell of a text column holds a string or a number; a missing cell is the float
  \<open>NaN\<close>. A row has the eleven required columns. The three numeric columns have type
  \<open>'n\<close>: cells as read from the file before \<^verbatim>\<open>pd.to_numeric\<close>, numbers after it.
\<close>

datatype cell = Num num | Text string

record 'n row =
  Car_Make :: cell
  Car_Model :: cell
  Year :: 'n
  Mileage :: 'n
  Price :: 'n
  Fuel_Type :: cell
  Color :: cell
  Transmission :: cell
  Options_Features :: cell
  Condition :: cell
  Accident :: cell

record frame =
  columns :: "string list"
  rows :: "cell row list"

definition isna :: "cell \<Rightarrow> bool" where
  "isna c = (c = Num (FloatV NaN))"

definition py_cell :: "cell \<Rightarrow> pyval" where
  "py_cell c = (case c of Text s \<Rightarrow> PStr s | Num v \<Rightarrow> py_num v)"

section \<open>Library functions\<close>

text \<open>
  What the program calls but does not define is a parameter of the model:
  \<^item> the conversions of Python across types: \<^verbatim>\<open>str\<close> of a value that is not a string,
    \<^verbatim>\<open>int\<close> and \<^verbatim>\<open>float\<close> of a string, \<^verbatim>\<open>float\<close> of an integer beyond \<open>2^53\<close>;
  \<^item> the string methods \<^verbatim>\<open>strip\<close> and \<^verbatim>\<open>lower\<close>, which work on Unicode;
  \<^item> what a column is compared with when the bound is an integer beyond \<open>2^53\<close>: the
    value the table library converts it to, or nothing when the library raises
    \<^verbatim>\<open>OverflowError\<close>;
  \<^item> the parsing of \<^verbatim>\<open>pd.to_numeric\<close>, what \<^verbatim>\<open>astype(str)\<close> makes of a missing cell
    (the text \<^verbatim>\<open>nan\<close>, or a missing cell where the library keeps missing values) and
    of a number;
  \<^item> the file read by \<^verbatim>\<open>pd.read_csv\<close>, the fitting of the regressor and its
    prediction on a vector of numbers (which the library may refuse, as it does a
    vector with a missing or an infinite entry), the single-column sort (whose order
    among equal keys is the library's), and the mean.
  Every theorem below that names no environment holds for all values of these
  parameters.
\<close>

record 'r extern =
  str_py :: "pyval \<Rightarrow> string"
  int_str :: "string \<Rightarrow> int option"
  float_str :: "string \<Rightarrow> fnum option"
  float_big :: "int \<Rightarrow> fnum option"
  strip :: "string \<Rightarrow> string"
  lower :: "string \<Rightarrow> string"
  cmp_big :: "int \<Rightarrow> fnum option"
  parse_num :: "string \<Rightarrow> num"
  str_missing :: cell
  str_num :: "num \<Rightarrow> string"
  read_csv :: "py_error + frame"
  fit_regressor :: "(string \<times> cell list) list \<Rightarrow> num row list \<Rightarrow> py_error + 'r"
  regress :: "'r \<Rightarrow> num list \<Rightarrow> py_error + fnum"
  sort_by_price :: "bool \<Rightarrow> num row list \<Rightarrow> num row list"
  mean :: "fnum list \<Rightarrow> fnum"

subsection \<open>Conversions\<close>

definition py_str :: "'r extern \<Rightarrow> pyval \<Rightarrow> string" where
  "py_str E v = (case v of PStr s \<Rightarrow> s | _ \<Rightarrow> str_py E v)"

text \<open>\<^verbatim>\<open>int(x)\<close> truncates a float towards zero.\<close>

definition trunc :: "rat \<Rightarrow> int" where
  "trunc x = (if 0 \<le> x then \<lfloor>x\<rfloor> else \<lceil>x\<rceil>)"

fun py_int :: "'r extern \<Rightarrow> pyval \<Rightarrow> py_error + int" where
  "py_int E (PInt n) = Inr n"
| "py_int E (PBool b) = Inr (if b then 1 else 0)"
| "py_int E (PFloat (Fin x)) = Inr (trunc x)"
| "py_int E (PStr s) = (case int_str E s of None \<Rightarrow> Inl (BadInt (PStr s)) | Some n \<Rightarrow> Inr n)"
| "py_int E v = Inl (BadInt v)"

text \<open>An integer up to \<open>2^53\<close> in magnitude is a float64 value; a larger one is rounded.\<close>

definition float_of_int :: "'r extern \<Rightarrow> int \<Rightarrow> fnum option" where
  "float_of_int E n = (if \<bar>n\<bar> \<le> 2 ^ 53 then Some (Fin (of_int n)) else float_big E n)"

fun py_float :: "'r extern \<Rightarrow> pyval \<Rightarrow> py_error + fnum" where
  "py_float E (PFloat x) = Inr x"
| "py_float E (PBool b) = Inr (Fin (if b then 1 else 0))"
| "py_float E (PInt n) =
     (case float_of_int E n of None \<Rightarrow> Inl (BadFloat (PInt n)) | Some x \<Rightarrow> Inr x)"
| "py_float E (PStr s) = (case float_str E s of None \<Rightarrow> Inl (BadFloat (PStr s)) | Some x \<Rightarrow> Inr x)"
| "py_float E v = Inl (BadFloat v)"

text \<open>
  The value a column is compared with in \<^verbatim>\<open>q["Year"] >= n\<close> for an integer \<open>n\<close>: the
  integer itself up to \<open>2^53\<close>; beyond that what the library makes of it, and the
  comparison raises when the library cannot convert it.
\<close>

definition int_operand :: "'r extern \<Rightarrow> int \<Rightarrow> py_error + fnum" where
  "int_operand E n =
     (if \<bar>n\<bar> \<le> 2 ^ 53 then Inr (Fin (of_int n))
      else (case cmp_big E n of None \<Rightarrow> Inl (OverflowError n) | Some x \<Rightarrow> Inr x))"

subsection \<open>Column operations\<close>

text \<open>
  \<^verbatim>\<open>pd.to_numeric(col, errors="coerce")\<close>: each cell becomes a number, and the column
  is an int64 column when all of them are integers, a float64 column otherwise.
\<close>

definition to_numeric :: "'r extern \<Rightarrow> cell \<Rightarrow> num" where
  "to_numeric E c = (case c of Num v \<Rightarrow> v | Text s \<Rightarrow> parse_num E s)"

definition as_float :: "'r extern \<Rightarrow> num \<Rightarrow> num" where
  "as_float E v =
     (case v of
        FloatV x \<Rightarrow> FloatV x
      | IntV n \<Rightarrow> FloatV (case float_of_int E n of None \<Rightarrow> NaN | Some x \<Rightarrow> x))"

definition column_dtype ::
  "'r extern \<Rightarrow> (num row \<Rightarrow> num) \<Rightarrow> ((num \<Rightarrow> num) \<Rightarrow> num row \<Rightarrow> num row) \<Rightarrow> num row list
     \<Rightarrow> num row list" where
  "column_dtype E col col_update df =
     (if list_all (\<lambda>r. is_int (col r)) df then df else map (col_update (as_float E)) df)"

text \<open>
  \<^verbatim>\<open>col.astype(str)\<close>, cell by cell: a string stays as it is. The \<^verbatim>\<open>.str\<close> methods
  apply the method of the string to each cell that holds one and give a missing cell
  for anything else.
\<close>

definition astype_str :: "'r extern \<Rightarrow> cell \<Rightarrow> cell" where
  "astype_str E c =
     (case c of
        Text s \<Rightarrow> Text s
      | Num v \<Rightarrow> if val v = NaN then str_missing E else Text (str_num E v))"

definition str_strip :: "'r extern \<Rightarrow> cell \<Rightarrow> cell" where
  "str_strip E c = (case c of Text s \<Rightarrow> Text (strip E s) | Num v \<Rightarrow> Num (FloatV NaN))"

definition str_lower :: "'r extern \<Rightarrow> cell \<Rightarrow> cell" where
  "str_lower E c = (case c of Text s \<Rightarrow> Text (lower E s) | Num v \<Rightarrow> Num (FloatV NaN))"

section \<open>Loading and cleaning\<close>

definition REQUIRED_COLUMNS :: "string list" where
  "REQUIRED_COLUMNS =
     [''Car Make'', ''Car Model'', ''Year'', ''Mileage'', ''Price'', ''Fuel Type'',
      ''Color'', ''Transmission'', ''Options/Features'', ''Condition'', ''Accident'']"

definition check_columns :: "frame \<Rightarrow> py_error + frame" where
  "check_columns df =
     (let missing = filter (\<lambda>c. c \<notin> set (columns df)) REQUIRED_COLUMNS
      in if missing \<noteq> [] then Inl (MissingColumns missing) else Inr df)"

text \<open>Lines 28 to 30 of \<^verbatim>\<open>_clean_df\<close>: the three numeric columns are coerced.\<close>

definition coerce_cells :: "'r extern \<Rightarrow> cell row \<Rightarrow> num row" where
  "coerce_cells E r =
     \<lparr> Car_Make = Car_Make r, Car_Model = Car_Model r,
       Year = to_numeric E (Year r), Mileage = to_numeric E (Mileage r),
       Price = to_numeric E (Price r),
       Fuel_Type = Fuel_Type r, Color = Color r, Transmission = Transmission r,
       Options_Features = Options_Features r, Condition = Condition r,
       Accident = Accident r \<rparr>"

definition coerce_numeric :: "'r extern \<Rightarrow> cell row list \<Rightarrow> num row list" where
  "coerce_numeric E df =
     column_dtype E Price Price_update
       (column_dtype E Mileage Mileage_update
          (column_dtype E Year Year_update (map (coerce_cells E) df)))"

text \<open>Lines 33 and 34: seven text columns are converted to strings and stripped.\<close>

definition normalize_text :: "'r extern \<Rightarrow> num row \<Rightarrow> num row" where
  "normalize_text E r =
     r\<lparr> Car_Make := str_strip E (astype_str E (Car_Make r)),
        Car_Model := str_strip E (astype_str E (Car_Model r)),
        Fuel_Type := str_strip E (astype_str E (Fuel_Type r)),
        Color := str_strip E (astype_str E (Color r)),
        Transmission := str_strip E (astype_str E (Transmission r)),
        Condition := str_strip E (astype_str E (Condition r)),
        Accident := str_strip E (astype_str E (Accident r)) \<rparr>"

text \<open>Line 37: \<^verbatim>\<open>dropna\<close> keeps the rows with no missing cell in the seven columns.\<close>

definition dropna_row :: "num row \<Rightarrow> bool" where
  "dropna_row r =
     (val (Year r) \<noteq> NaN \<and> val (Mileage r) \<noteq> NaN \<and> val (Price r) \<noteq> NaN
      \<and> \<not> isna (Fuel_Type r) \<and> \<not> isna (Transmission r) \<and> \<not> isna (Condition r)
      \<and> \<not> isna (Accident r))"

definition clean_df :: "'r extern \<Rightarrow> cell row list \<Rightarrow> num row list" where
  "clean_df E df0 =
     (let df1 = coerce_numeric E df0;
          df2 = map (normalize_text E) df1;
          df3 = filter dropna_row df2;
          df4 = filter (\<lambda>r. fge (val (Year r)) (Fin 2010) \<and> fle (val (Year r)) (Fin 2025)) df3;
          df5 = filter (\<lambda>r. fge (val (Mileage r)) (Fin 0) \<and> fle (val (Mileage r)) (Fin 300000)) df4;
          df6 = filter (\<lambda>r. fgt (val (Price r)) (Fin 0) \<and> fle (val (Price r)) (Fin 400000)) df5
      in df6)"

text \<open>
  The invariant of a cleaned record, as the specification words it: the three ranges,
  and no missing cell in the seven columns.
\<close>

definition in_range :: "fnum \<Rightarrow> rat \<Rightarrow> bool \<Rightarrow> rat \<Rightarrow> bool" where
  "in_range x lo strict hi =
     (case x of Fin v \<Rightarrow> (if strict then lo < v else lo \<le> v) \<and> v \<le> hi | _ \<Rightarrow> False)"

definition record_invariant :: "num row \<Rightarrow> bool" where
  "record_invariant r =
     (in_range (val (Year r)) 2010 False 2025 \<and> in_range (val (Mileage r)) 0 False 300000
      \<and> in_range (val (Price r)) 0 True 400000
      \<and> val (Year r) \<noteq> NaN \<and> val (Mileage r) \<noteq> NaN \<and> val (Price r) \<noteq> NaN
      \<and> \<not> isna (Fuel_Type r) \<and> \<not> isna (Transmission r) \<and> \<not> isna (Condition r)
      \<and> \<not> isna (Accident r))"

definition cleaned :: "num row list \<Rightarrow> bool" where
  "cleaned df = list_all record_invariant df"

section \<open>Filtering\<close>

definition bind :: "'e + 'a \<Rightarrow> ('a \<Rightarrow> 'e + 'b) \<Rightarrow> 'e + 'b" where
  "bind x f = (case x of Inl e \<Rightarrow> Inl e | Inr v \<Rightarrow> f v)"

text \<open>\<^verbatim>\<open>_norm(s)\<close> is \<^verbatim>\<open>str(s).strip().lower()\<close>.\<close>

definition norm :: "'r extern \<Rightarrow> pyval \<Rightarrow> string" where
  "norm E s = lower E (strip E (py_str E s))"

text \<open>Comparing a column with a string, cell by cell: a missing cell equals no string.\<close>

definition cell_eq :: "cell \<Rightarrow> string \<Rightarrow> bool" where
  "cell_eq c s = (case c of Text t \<Rightarrow> t = s | Num x \<Rightarrow> False)"

text \<open>The six columns of the exact filters, each with the field it names.\<close>

definition exact_columns :: "(string \<times> (num row \<Rightarrow> cell)) list" where
  "exact_columns =
     [(''Car Make'', Car_Make), (''Car Model'', Car_Model), (''Fuel Type'', Fuel_Type),
      (''Transmission'', Transmission), (''Condition'', Condition), (''Accident'', Accident)]"

definition exact_match :: "'r extern \<Rightarrow> (num row \<Rightarrow> cell) \<Rightarrow> pyval \<Rightarrow> num row \<Rightarrow> bool" where
  "exact_match E field v r =
     cell_eq (str_lower E (str_strip E (astype_str E (field r)))) (norm E v)"

text \<open>One round of the loop over the exact columns: \<^verbatim>\<open>if col in args and args[col]\<close>.\<close>

definition exact_step ::
  "'r extern \<Rightarrow> pydict \<Rightarrow> string \<times> (num row \<Rightarrow> cell) \<Rightarrow> num row list \<Rightarrow> num row list" where
  "exact_step E args cf q =
     (case map_of args (fst cf) of
        None \<Rightarrow> q
      | Some v \<Rightarrow> if truthy v then filter (exact_match E (snd cf) v) q else q)"

text \<open>
  One range filter: \<^verbatim>\<open>if args.get(k) is not None: q = q[keep(conv(args[k]))]\<close>, where
  \<open>conv\<close> is the conversion of the bound and, for an integer bound, of the integer to
  the value the column is compared with; either may raise.
\<close>

definition range_filter ::
  "(pyval \<Rightarrow> py_error + fnum) \<Rightarrow> (fnum \<Rightarrow> num row \<Rightarrow> bool) \<Rightarrow> pydict \<Rightarrow> string
     \<Rightarrow> num row list \<Rightarrow> py_error + num row list" where
  "range_filter conv keep args k q =
     (if py_get args k PNone \<noteq> PNone
      then bind (conv (py_get args k PNone)) (\<lambda>b. Inr (filter (keep b) q))
      else Inr q)"

definition int_bound :: "'r extern \<Rightarrow> pyval \<Rightarrow> py_error + fnum" where
  "int_bound E v = bind (py_int E v) (int_operand E)"

definition year_ge :: "fnum \<Rightarrow> num row \<Rightarrow> bool" where
  "year_ge b r = fge (val (Year r)) b"

definition year_le :: "fnum \<Rightarrow> num row \<Rightarrow> bool" where
  "year_le b r = fle (val (Year r)) b"

definition price_le :: "fnum \<Rightarrow> num row \<Rightarrow> bool" where
  "price_le b r = fle (val (Price r)) b"

definition mileage_le :: "fnum \<Rightarrow> num row \<Rightarrow> bool" where
  "mileage_le b r = fle (val (Mileage r)) b"

definition apply_filters :: "'r extern \<Rightarrow> num row list \<Rightarrow> pydict \<Rightarrow> py_error + num row list" where
  "apply_filters E df args =
     (let q = fold (exact_step E args) exact_columns df in
      bind (range_filter (int_bound E) year_ge args ''Year_min'' q) (\<lambda>q.
      bind (range_filter (int_bound E) year_le args ''Year_max'' q) (\<lambda>q.
      bind (range_filter (py_float E) price_le args ''Price_max'' q) (\<lambda>q.
      range_filter (py_float E) mileage_le args ''Mileage_max'' q))))"

section \<open>Sorting, truncating, projecting\<close>

text \<open>
  \<^verbatim>\<open>sort_values(by=["Price","Year"], ascending=[True, False])\<close>: a stable sort on the
  pair of keys, Price ascending and Year descending, missing values last in each.
\<close>

definition price_key :: "fnum \<Rightarrow> nat \<times> rat" where
  "price_key p = (case p of NegInf \<Rightarrow> (0, 0) | Fin x \<Rightarrow> (1, x) | PosInf \<Rightarrow> (2, 0) | NaN \<Rightarrow> (3, 0))"

definition year_key :: "fnum \<Rightarrow> nat \<times> rat" where
  "year_key y = (case y of PosInf \<Rightarrow> (0, 0) | Fin x \<Rightarrow> (1, - x) | NegInf \<Rightarrow> (2, 0) | NaN \<Rightarrow> (3, 0))"

definition sort_price_year :: "num row list \<Rightarrow> num row list" where
  "sort_price_year q = sort_key (\<lambda>r. (price_key (val (Price r)), year_key (val (Year r)))) q"

text \<open>\<^verbatim>\<open>head(n)\<close> is the slice \<^verbatim>\<open>[:n]\<close>: a negative \<open>n\<close> leaves out the last \<open>-n\<close> rows.\<close>

definition head :: "int \<Rightarrow> 'a list \<Rightarrow> 'a list" where
  "head n xs = (if 0 \<le> n then take (nat n) xs else take (length xs - nat (- n)) xs)"

text \<open>A projected column: its name and the value it gives in the dict of a row.\<close>

type_synonym column = "string \<times> (num row \<Rightarrow> pyval)"

definition recommend_cols :: "column list" where
  "recommend_cols =
     [(''Car Make'', \<lambda>r. py_cell (Car_Make r)), (''Car Model'', \<lambda>r. py_cell (Car_Model r)),
      (''Year'', \<lambda>r. py_num (Year r)), (''Mileage'', \<lambda>r. py_num (Mileage r)),
      (''Price'', \<lambda>r. py_num (Price r)), (''Fuel Type'', \<lambda>r. py_cell (Fuel_Type r)),
      (''Transmission'', \<lambda>r. py_cell (Transmission r)),
      (''Condition'', \<lambda>r. py_cell (Condition r)), (''Accident'', \<lambda>r. py_cell (Accident r))]"

definition filter_cars_cols :: "column list" where
  "filter_cars_cols = recommend_cols @ [(''Color'', \<lambda>r. py_cell (Color r))]"

text \<open>
  \<^verbatim>\<open>to_dict(orient="records")\<close> on the projected columns, row by row: a number of an
  int64 column is an \<^verbatim>\<open>int\<close>, a number of a float64 column a \<^verbatim>\<open>float\<close>.
\<close>

definition to_dict :: "column list \<Rightarrow> num row \<Rightarrow> pyval" where
  "to_dict cols r = PDict (map (\<lambda>c. (fst c, snd c r)) cols)"

section \<open>The prediction model\<close>

text \<open>
  The program builds its model from the scikit-learn library, which is not in the
  repository: a \<^verbatim>\<open>ColumnTransformer\<close> that passes Year and Mileage through and encodes six
  columns with \<^verbatim>\<open>OneHotEncoder(handle_unknown="ignore")\<close>, followed by a
  \<^verbatim>\<open>LinearRegression\<close>. The two lists of feature columns are those of
  \<^verbatim>\<open>init_data_and_model\<close>; the encoding stage is modelled from the specification; the
  regressor itself stays a parameter.
\<close>

definition feature_cols_numeric :: "string list" where
  "feature_cols_numeric = [''Year'', ''Mileage'']"

definition feature_cols_categ :: "(string \<times> (num row \<Rightarrow> cell)) list" where
  "feature_cols_categ =
     [(''Fuel Type'', Fuel_Type), (''Transmission'', Transmission), (''Condition'', Condition),
      (''Accident'', Accident), (''Car Make'', Car_Make), (''Car Model'', Car_Model)]"

text \<open>
  Modelled from the spec: the two policies of the encoder of scikit-learn (not in the
  repository) for a categorical value that was not observed at fit time. The program
  chooses the first with the flag \<^verbatim>\<open>handle_unknown="ignore"\<close>.
\<close>

datatype unknown_policy = IgnoreUnknown | ErrorOnUnknown

text \<open>
  Modelled from the spec: the fitted model of scikit-learn (not in the repository): the
  vocabulary observed at fit time for each categorical feature, in the order of the
  features, the policy for unknown values, and the fitted regressor.
\<close>

record 'r pipeline =
  categories :: "(string \<times> cell list) list"
  handle_unknown :: unknown_policy
  regressor :: 'r

text \<open>
  Modelled from the spec: the vocabulary of a categorical feature, which the encoder of
  scikit-learn (not in the repository) collects when the model is fitted. It is the
  list of the distinct values observed in the column, the texts in their order and a
  value that is no text after them.
\<close>

definition vocabulary :: "cell list \<Rightarrow> cell list" where
  "vocabulary cs =
     map Text (sort (remdups (concat (map (\<lambda>c. case c of Text s \<Rightarrow> [s] | Num v \<Rightarrow> []) cs))))
     @ remdups (filter (\<lambda>c. case c of Text s \<Rightarrow> False | Num v \<Rightarrow> True) cs)"

text \<open>
  Modelled from the spec: the indicator vector of a categorical value over a vocabulary,
  as the encoder of scikit-learn (not in the repository) builds it: one where the entry
  of the vocabulary is the value, zero elsewhere.
\<close>

definition one_hot :: "cell list \<Rightarrow> cell \<Rightarrow> num list" where
  "one_hot vocab c = map (\<lambda>v. if v = c then FloatV (Fin 1) else FloatV (Fin 0)) vocab"

text \<open>
  Modelled from the spec: the one-hot encoding of a categorical value by the encoder of
  scikit-learn (not in the repository). A value of the vocabulary observed at fit time
  gets its indicator vector. For a value that was not observed, the policy
  \<^verbatim>\<open>handle_unknown="ignore"\<close> gives the all-zero indicator and never an error; the
  other policy of the library raises.
\<close>

definition encode_category :: "unknown_policy \<Rightarrow> cell list \<Rightarrow> cell \<Rightarrow> py_error + num list" where
  "encode_category policy vocab c =
     (if c \<in> set vocab then Inr (one_hot vocab c)
      else (case policy of
              IgnoreUnknown \<Rightarrow> Inr (replicate (length vocab) (FloatV (Fin 0)))
            | ErrorOnUnknown \<Rightarrow> Inl (ValueError ''Found unknown categories'')))"

text \<open>
  Modelled from the spec: the numeric passthrough of the encoding stage of scikit-learn
  (not in the repository): the number in a numeric column of the row of features, as
  it is. A column that is absent or holds no number is an error of the library.
\<close>

definition numeric_feature :: "pydict \<Rightarrow> string \<Rightarrow> py_error + num" where
  "numeric_feature X c =
     (case map_of X c of
        None \<Rightarrow> Inl (KeyError c)
      | Some (PInt n) \<Rightarrow> Inr (IntV n)
      | Some (PFloat x) \<Rightarrow> Inr (FloatV x)
      | Some v \<Rightarrow> Inl (LibraryError ''could not convert to float''))"

text \<open>
  Modelled from the spec: the categorical value that the encoder of scikit-learn (not
  in the repository) reads in a cell of the row of features, to be looked up in the
  vocabulary: a string is a text, a number is a number, and anything else is missing.
\<close>

definition category_of :: "pyval \<Rightarrow> cell" where
  "category_of v =
     (case v of
        PStr s \<Rightarrow> Text s
      | PInt n \<Rightarrow> Num (IntV n)
      | PFloat x \<Rightarrow> Num (FloatV x)
      | _ \<Rightarrow> Num (FloatV NaN))"

text \<open>
  Modelled from the spec: the block that the encoding stage of scikit-learn (not in the
  repository) gives for one categorical feature of the row: the one-hot encoding of
  the value in the column of that name, over the vocabulary of the feature.
\<close>

definition categorical_feature ::
  "unknown_policy \<Rightarrow> pydict \<Rightarrow> string \<times> cell list \<Rightarrow> py_error + num list" where
  "categorical_feature policy X cv =
     (case map_of X (fst cv) of
        None \<Rightarrow> Inl (KeyError (fst cv))
      | Some v \<Rightarrow> encode_category policy (snd cv) (category_of v))"

text \<open>Running a step that may raise over a list, in order, up to the first error.\<close>

fun traverse :: "('a \<Rightarrow> 'e + 'b) \<Rightarrow> 'a list \<Rightarrow> 'e + 'b list" where
  "traverse f [] = Inr []"
| "traverse f (x # xs) = bind (f x) (\<lambda>y. bind (traverse f xs) (\<lambda>ys. Inr (y # ys)))"

text \<open>
  Modelled from the spec: the encoding stage of the model of scikit-learn (not in the
  repository) on one row of features: numeric passthrough for Year and Mileage, then
  the one-hot blocks of the categorical features in their order.
\<close>

definition transform :: "'r pipeline \<Rightarrow> pydict \<Rightarrow> py_error + num list" where
  "transform m X =
     bind (traverse (numeric_feature X) feature_cols_numeric) (\<lambda>nums.
     bind (traverse (categorical_feature (handle_unknown m) X) (categories m)) (\<lambda>blocks.
     Inr (nums @ concat blocks)))"

text \<open>
  Modelled from the spec: the prediction of the fitted model of scikit-learn (not in the
  repository) for one row: the encoding stage composed with the regressor. What the
  regressor answers on the encoded vector, a scalar or an error of its own, is the
  library's.
\<close>

definition predict :: "'r extern \<Rightarrow> 'r pipeline \<Rightarrow> pydict \<Rightarrow> py_error + fnum" where
  "predict E m X = bind (transform m X) (regress E (regressor m))"

text \<open>
  Modelled from the spec: the fitting of the model of scikit-learn (not in the
  repository) against the cleaned table: the vocabularies are the values observed in
  the six categorical columns, and the regressor is fitted once on the encoded table.
\<close>

definition fit :: "'r extern \<Rightarrow> unknown_policy \<Rightarrow> num row list \<Rightarrow> py_error + 'r pipeline" where
  "fit E policy d =
     (let cats = map (\<lambda>cf. (fst cf, vocabulary (map (snd cf) d))) feature_cols_categ in
      bind (fit_regressor E cats d) (\<lambda>r.
      Inr \<lparr> categories = cats, handle_unknown = policy, regressor = r \<rparr>))"

section \<open>Tools\<close>

definition tool_filter_cars :: "'r extern \<Rightarrow> num row list \<Rightarrow> pydict \<Rightarrow> py_error + pyval" where
  "tool_filter_cars E df args =
     bind (apply_filters E df args) (\<lambda>q.
     bind (py_int E (py_get args ''limit'' (PInt 20))) (\<lambda>limit.
     let out = map (to_dict filter_cars_cols) (head limit (sort_price_year q))
     in Inr (PDict [(''count'', PInt (int (length out))), (''results'', PList out)])))"

definition tool_recommend :: "'r extern \<Rightarrow> num row list \<Rightarrow> pydict \<Rightarrow> py_error + pyval" where
  "tool_recommend E df args =
     (if \<not> py_in ''budget_max'' args then Inl (ValueError ''budget_max is required'')
      else
        let args_local = AList.update ''Price_max'' (py_get args ''budget_max'' PNone) args in
        bind (apply_filters E df args_local) (\<lambda>q.
        bind (py_int E (py_get args ''limit'' (PInt 10))) (\<lambda>limit.
        let out = map (to_dict recommend_cols) (head limit (sort_price_year q)) in
        bind (py_float E (py_get args ''budget_max'' PNone)) (\<lambda>b.
        Inr (PDict [(''budget_max'', PFloat b), (''count'', PInt (int (length out))),
                    (''recommendations'', PList out)])))))"

text \<open>\<^verbatim>\<open>pd.DataFrame([payload])[feature_columns]\<close>: every selected column must exist.\<close>

fun select_columns :: "pydict \<Rightarrow> string list \<Rightarrow> py_error + pydict" where
  "select_columns payload [] = Inr []"
| "select_columns payload (c # cs) =
     (case map_of payload c of
        None \<Rightarrow> Inl (KeyError c)
      | Some v \<Rightarrow> bind (select_columns payload cs) (\<lambda>rest. Inr ((c, v) # rest)))"

text \<open>The dict \<^verbatim>\<open>payload\<close> of \<^verbatim>\<open>tool_estimate_price\<close>, its entries evaluated in order.\<close>

definition estimation_input :: "'r extern \<Rightarrow> pydict \<Rightarrow> py_error + pydict" where
  "estimation_input E args =
     (let make = PStr (py_str E (py_get args ''Car Make'' (PStr '''')));
          model_name = PStr (py_str E (py_get args ''Car Model'' (PStr ''''))) in
      bind (bind (py_item args ''Year'') (py_int E)) (\<lambda>year.
      bind (bind (py_item args ''Mileage'') (py_float E)) (\<lambda>mileage.
      bind (py_item args ''Fuel Type'') (\<lambda>fuel.
      bind (py_item args ''Transmission'') (\<lambda>transmission.
      Inr [(''Car Make'', make), (''Car Model'', model_name), (''Year'', PInt year),
           (''Mileage'', PFloat mileage), (''Fuel Type'', PStr (py_str E fuel)),
           (''Transmission'', PStr (py_str E transmission)),
           (''Condition'', PStr (py_str E (py_get args ''Condition'' (PStr ''Used'')))),
           (''Accident'', PStr (py_str E (py_get args ''Accident'' (PStr ''No''))))])))))"

definition tool_estimate_price ::
  "'r extern \<Rightarrow> 'r pipeline option \<Rightarrow> string list option \<Rightarrow> pydict \<Rightarrow> py_error + pyval" where
  "tool_estimate_price E model feature_columns args =
     bind (estimation_input E args) (\<lambda>payload.
     bind (case feature_columns of
             None \<Rightarrow> Inl (KeyError ''None'')
           | Some cols \<Rightarrow> select_columns payload cols) (\<lambda>X_pred.
     bind (case model of
             None \<Rightarrow> Inl (TypeError ''NoneType'')
           | Some m \<Rightarrow> predict E m X_pred) (\<lambda>pred.
     Inr (PDict [(''input'', PDict payload), (''estimated_price'', PFloat pred)]))))"

definition tool_average_price :: "'r extern \<Rightarrow> num row list \<Rightarrow> pydict \<Rightarrow> py_error + pyval" where
  "tool_average_price E df args =
     bind (apply_filters E df args) (\<lambda>q.
     let avg = (if q = [] then PNone else PFloat (mean E (map (\<lambda>r. val (Price r)) q)));
         n = int (length q)
     in Inr (PDict [(''filters'', PDict args), (''average_price'', avg), (''samples'', PInt n)]))"

definition tool_top_cars :: "'r extern \<Rightarrow> num row list \<Rightarrow> pydict \<Rightarrow> py_error + pyval" where
  "tool_top_cars E df args =
     bind (apply_filters E df args) (\<lambda>q.
     bind (py_int E (py_get args ''n'' (PInt 10))) (\<lambda>n.
     let order = py_get args ''sort_order'' (PStr ''cheap'');
         asc = (order = PStr ''cheap'');
         out = map (to_dict recommend_cols) (head n (sort_by_price E asc q))
     in Inr (PDict [(''order'', order), (''results'', PList out)])))"

section \<open>The server\<close>

text \<open>
  The process-wide state: the cleaned table, the fitted model and the list of feature
  columns, each \<open>None\<close> until the first call.
\<close>

record 'r state =
  df :: "num row list option"
  model :: "'r pipeline option"
  feature_columns :: "string list option"

definition STATE :: "'r state" where
  "STATE = \<lparr> df = None, model = None, feature_columns = None \<rparr>"

text \<open>
  \<^verbatim>\<open>init_data_and_model\<close> writes the state in its last three statements: when reading,
  checking or fitting raises, the state is as it was. The encoder is built with
  \<^verbatim>\<open>handle_unknown="ignore"\<close>.
\<close>

definition init_data_and_model :: "'r extern \<Rightarrow> 'r state \<Rightarrow> py_error + 'r state" where
  "init_data_and_model E st =
     bind (read_csv E) (\<lambda>raw.
     bind (check_columns raw) (\<lambda>raw.
     let d = clean_df E (rows raw) in
     bind (fit E IgnoreUnknown d) (\<lambda>m.
     Inr (st\<lparr> df := Some d, model := Some m,
              feature_columns := Some (feature_cols_numeric @ map fst feature_cols_categ) \<rparr>))))"

text \<open>
  The declared tools with their input schemas, as \<^verbatim>\<open>list_tools\<close> returns them: the
  properties with their types, enumerations and defaults, the required properties, and
  \<^verbatim>\<open>additionalProperties\<close>.
\<close>

datatype json_type = TString | TInteger | TNumber

record property =
  kind :: json_type
  choices :: "string list option"
  default_value :: "pyval option"

record schema =
  properties :: "(string \<times> property) list"
  required :: "string list"
  additionalProperties :: bool

definition string_prop :: property where
  "string_prop = \<lparr> kind = TString, choices = None, default_value = None \<rparr>"

definition integer_prop :: property where
  "integer_prop = \<lparr> kind = TInteger, choices = None, default_value = None \<rparr>"

definition number_prop :: property where
  "number_prop = \<lparr> kind = TNumber, choices = None, default_value = None \<rparr>"

definition yes_no_prop :: property where
  "yes_no_prop = \<lparr> kind = TString, choices = Some [''Yes'', ''No''], default_value = None \<rparr>"

definition list_tools :: "(string \<times> schema) list" where
  "list_tools =
     [(''filter_cars'',
        \<lparr> properties =
            [(''Car Make'', string_prop), (''Car Model'', string_prop),
             (''Year_min'', integer_prop), (''Year_max'', integer_prop),
             (''Price_max'', number_prop), (''Mileage_max'', number_prop),
             (''Fuel Type'', string_prop), (''Transmission'', string_prop),
             (''Condition'', string_prop), (''Accident'', yes_no_prop),
             (''limit'', integer_prop\<lparr> default_value := Some (PInt 20) \<rparr>)],
          required = [], additionalProperties = False \<rparr>),
      (''recommend'',
        \<lparr> properties =
            [(''budget_max'', number_prop), (''Car Make'', string_prop),
             (''Fuel Type'', string_prop), (''Transmission'', string_prop),
             (''Condition'', string_prop), (''Accident'', yes_no_prop),
             (''Year_min'', integer_prop),
             (''limit'', integer_prop\<lparr> default_value := Some (PInt 10) \<rparr>)],
          required = [''budget_max''], additionalProperties = False \<rparr>),
      (''estimate_price'',
        \<lparr> properties =
            [(''Car Make'', string_prop), (''Car Model'', string_prop),
             (''Year'', integer_prop), (''Mileage'', number_prop),
             (''Fuel Type'', string_prop), (''Transmission'', string_prop),
             (''Condition'', string_prop), (''Accident'', yes_no_prop)],
          required = [''Year'', ''Mileage'', ''Fuel Type'', ''Transmission''],
          additionalProperties = False \<rparr>),
      (''average_price'',
        \<lparr> properties =
            [(''Car Make'', string_prop), (''Car Model'', string_prop),
             (''Fuel Type'', string_prop), (''Transmission'', string_prop),
             (''Condition'', string_prop), (''Accident'', yes_no_prop),
             (''Year_min'', integer_prop), (''Year_max'', integer_prop)],
          required = [], additionalProperties = False \<rparr>),
      (''top_cars'',
        \<lparr> properties =
            [(''n'', integer_prop\<lparr> default_value := Some (PInt 10) \<rparr>),
             (''sort_order'',
                \<lparr> kind = TString, choices = Some [''cheap'', ''expensive''],
                  default_value = Some (PStr ''cheap'') \<rparr>),
             (''Car Make'', string_prop), (''Fuel Type'', string_prop),
             (''Transmission'', string_prop), (''Condition'', string_prop),
             (''Accident'', yes_no_prop)],
          required = [], additionalProperties = False \<rparr>)]"

text \<open>
  The payload of a call before serialisation: the dict a handler returned, or the dict
  \<^verbatim>\<open>{"error": str(e), "args": arguments}\<close> of the \<^verbatim>\<open>except\<close> branch, kept as the
  exception and the arguments. The conversion to text (\<^verbatim>\<open>_to_py\<close>, \<^verbatim>\<open>json.dumps\<close>) is
  not part of the model.
\<close>

datatype payload = Result pyval | ErrorPayload py_error pydict

text \<open>
  A handler that reads the table from a state where it is \<open>None\<close> raises; \<^verbatim>\<open>call_tool\<close>
  never routes from such a state.
\<close>

definition with_df :: "'r state \<Rightarrow> (num row list \<Rightarrow> py_error + pyval) \<Rightarrow> py_error + pyval" where
  "with_df st tool = (case df st of None \<Rightarrow> Inl (TypeError ''NoneType'') | Some d \<Rightarrow> tool d)"

text \<open>The body of the \<^verbatim>\<open>try\<close>: the chain of comparisons on the tool name.\<close>

definition route :: "'r extern \<Rightarrow> 'r state \<Rightarrow> string \<Rightarrow> pydict \<Rightarrow> py_error + pyval" where
  "route E st name arguments =
     (if name = ''filter_cars'' then with_df st (\<lambda>d. tool_filter_cars E d arguments)
      else if name = ''recommend'' then with_df st (\<lambda>d. tool_recommend E d arguments)
      else if name = ''estimate_price''
        then tool_estimate_price E (model st) (feature_columns st) arguments
      else if name = ''average_price'' then with_df st (\<lambda>d. tool_average_price E d arguments)
      else if name = ''top_cars'' then with_df st (\<lambda>d. tool_top_cars E d arguments)
      else Inr (PDict [(''error'', PStr (''Unknown tool: '' @ name))]))"

text \<open>The \<^verbatim>\<open>try\<close> with its \<^verbatim>\<open>except Exception\<close>.\<close>

definition dispatch :: "'r extern \<Rightarrow> 'r state \<Rightarrow> string \<Rightarrow> pydict \<Rightarrow> payload" where
  "dispatch E st name arguments =
     (case route E st name arguments of
        Inl e \<Rightarrow> ErrorPayload e arguments
      | Inr result \<Rightarrow> Result result)"

text \<open>The lazy initialisation at the head of \<^verbatim>\<open>call_tool\<close>, outside the \<^verbatim>\<open>try\<close>.\<close>

definition lazy_init :: "'r extern \<Rightarrow> 'r state \<Rightarrow> py_error + 'r state" where
  "lazy_init E st =
     (if df st = None \<or> model st = None then init_data_and_model E st else Inr st)"

text \<open>
  \<^verbatim>\<open>call_tool\<close> returns the payload, or raises, and leaves the state: \<open>Inl\<close> in the
  first component is an exception that leaves the function.
\<close>

definition call_tool ::
  "'r extern \<Rightarrow> 'r state \<Rightarrow> string \<Rightarrow> pydict \<Rightarrow> (py_error + payload) \<times> 'r state" where
  "call_tool E st name arguments =
     (case lazy_init E st of
        Inl e \<Rightarrow> (Inl e, st)
      | Inr st' \<Rightarrow> (Inr (dispatch E st' name arguments), st'))"

subsection \<open>The registered handler\<close>

text \<open>
  \<^verbatim>\<open>call_tool\<close> is registered with the decorator \<^verbatim>\<open>@server.call_tool()\<close> of the server
  framework, which is not in the repository. The specification has the arguments of a
  call validated against the declared schema before the handler runs.
\<close>

text \<open>
  Modelled from the spec: the check of one argument against its declared primitive type
  and enumeration, made by the server framework (not in the repository). A boolean is
  no number, and a float with an integral value counts as an integer.
\<close>

definition conforms :: "property \<Rightarrow> pyval \<Rightarrow> bool" where
  "conforms p v =
     ((case kind p of
         TString \<Rightarrow> (case v of PStr s \<Rightarrow> True | _ \<Rightarrow> False)
       | TInteger \<Rightarrow>
           (case v of PInt n \<Rightarrow> True | PFloat (Fin x) \<Rightarrow> of_int \<lfloor>x\<rfloor> = x | _ \<Rightarrow> False)
       | TNumber \<Rightarrow> (case v of PInt n \<Rightarrow> True | PFloat x \<Rightarrow> True | _ \<Rightarrow> False))
      \<and> (case choices p of
            None \<Rightarrow> True
          | Some cs \<Rightarrow> (case v of PStr s \<Rightarrow> s \<in> set cs | _ \<Rightarrow> False)))"

text \<open>
  Modelled from the spec: the strict validation of an argument object against a schema,
  made by the server framework (not in the repository): unexpected properties are
  rejected, required properties must be present, and every declared property that is
  present must have its declared type and enumeration.
\<close>

definition valid :: "schema \<Rightarrow> pydict \<Rightarrow> bool" where
  "valid sch arguments =
     ((additionalProperties sch
          \<or> list_all (\<lambda>kv. fst kv \<in> set (map fst (properties sch))) arguments)
      \<and> list_all (\<lambda>k. py_in k arguments) (required sch)
      \<and> list_all (\<lambda>kp. case map_of arguments (fst kp) of
                          None \<Rightarrow> True
                        | Some v \<Rightarrow> conforms (snd kp) v) (properties sch))"

text \<open>
  Modelled from the spec: the answer of the server framework (not in the repository) to
  a call: the error payload of a failed validation, or what \<^verbatim>\<open>call_tool\<close> returned or
  raised.
\<close>

datatype response = InputValidationError | Completed "py_error + payload"

text \<open>
  Modelled from the spec: the handler that the server framework (not in the repository)
  runs for a call: the arguments of a declared tool are validated against its schema,
  and \<^verbatim>\<open>call_tool\<close> runs only when they are valid; a failed validation gives the error
  payload and leaves the state. A name that is not declared has no schema to validate
  against.
\<close>

definition registered_call_tool ::
  "'r extern \<Rightarrow> 'r state \<Rightarrow> string \<Rightarrow> pydict \<Rightarrow> response \<times> 'r state" where
  "registered_call_tool E st name arguments =
     (case map_of list_tools name of
        Some sch \<Rightarrow>
          if valid sch arguments
          then (Completed (fst (call_tool E st name arguments)),
                snd (call_tool E st name arguments))
          else (InputValidationError, st)
      | None \<Rightarrow>
          (Completed (fst (call_tool E st name arguments)),
           snd (call_tool E st name arguments)))"

section \<open>The specification's words\<close>

text \<open>
  The converted numeric bounds of a criteria object, each the value its column is
  compared with: a bound is absent when the key is missing or holds \<open>None\<close>.
\<close>

record bounds =
  Year_min :: "fnum option"
  Year_max :: "fnum option"
  Price_max :: "fnum option"
  Mileage_max :: "fnum option"

definition bound :: "(pyval \<Rightarrow> py_error + fnum) \<Rightarrow> pydict \<Rightarrow> string \<Rightarrow> py_error + fnum option" where
  "bound conv args k =
     (case map_of args k of
        None \<Rightarrow> Inr None
      | Some v \<Rightarrow> if v = PNone then Inr None else bind (conv v) (\<lambda>b. Inr (Some b)))"

definition bounds_of :: "'r extern \<Rightarrow> pydict \<Rightarrow> py_error + bounds" where
  "bounds_of E args =
     bind (bound (int_bound E) args ''Year_min'') (\<lambda>ymin.
     bind (bound (int_bound E) args ''Year_max'') (\<lambda>ymax.
     bind (bound (py_float E) args ''Price_max'') (\<lambda>pmax.
     bind (bound (py_float E) args ''Mileage_max'') (\<lambda>mmax.
     Inr \<lparr> Year_min = ymin, Year_max = ymax, Price_max = pmax, Mileage_max = mmax \<rparr>))))"

definition holds :: "'a option \<Rightarrow> ('a \<Rightarrow> bool) \<Rightarrow> bool" where
  "holds b P = (case b of None \<Rightarrow> True | Some x \<Rightarrow> P x)"

definition within_bounds :: "bounds \<Rightarrow> num row \<Rightarrow> bool" where
  "within_bounds b r =
     (holds (Year_min b) (\<lambda>x. fge (val (Year r)) x)
      \<and> holds (Year_max b) (\<lambda>x. fle (val (Year r)) x)
      \<and> holds (Price_max b) (\<lambda>x. fle (val (Price r)) x)
      \<and> holds (Mileage_max b) (\<lambda>x. fle (val (Mileage r)) x))"

text \<open>
  A record satisfies the criteria as the specification words them: every exact-match
  predicate present in the criteria, and every numeric bound present.
\<close>

definition exact_present ::
  "'r extern \<Rightarrow> pydict \<Rightarrow> string \<times> (num row \<Rightarrow> cell) \<Rightarrow> num row \<Rightarrow> bool" where
  "exact_present E args cf r =
     (case map_of args (fst cf) of None \<Rightarrow> True | Some v \<Rightarrow> exact_match E (snd cf) v r)"

definition satisfies_present :: "'r extern \<Rightarrow> pydict \<Rightarrow> bounds \<Rightarrow> num row \<Rightarrow> bool" where
  "satisfies_present E args b r =
     (list_all (\<lambda>cf. exact_present E args cf r) exact_columns \<and> within_bounds b r)"

text \<open>The same with an exact-match predicate counted only when its value is truthy.\<close>

definition exact_active ::
  "'r extern \<Rightarrow> pydict \<Rightarrow> string \<times> (num row \<Rightarrow> cell) \<Rightarrow> num row \<Rightarrow> bool" where
  "exact_active E args cf r =
     (case map_of args (fst cf) of
        None \<Rightarrow> True
      | Some v \<Rightarrow> truthy v \<longrightarrow> exact_match E (snd cf) v r)"

definition satisfies :: "'r extern \<Rightarrow> pydict \<Rightarrow> bounds \<Rightarrow> num row \<Rightarrow> bool" where
  "satisfies E args b r =
     (list_all (\<lambda>cf. exact_active E args cf r) exact_columns \<and> within_bounds b r)"

definition criteria_keys :: "string list" where
  "criteria_keys = map fst exact_columns @ [''Year_min'', ''Year_max'', ''Price_max'', ''Mileage_max'']"



section \<open>Reading results\<close>

text \<open>The finite number a result dict holds under a key, if it holds one.\<close>

definition number_at :: "string \<Rightarrow> pyval \<Rightarrow> rat option" where
  "number_at k v =
     (case v of
        PDict kvs \<Rightarrow>
          (case map_of kvs k of
             Some (PFloat (Fin x)) \<Rightarrow> Some x
           | Some (PInt n) \<Rightarrow> Some (of_int n)
           | _ \<Rightarrow> None)
      | _ \<Rightarrow> None)"

text \<open>
  The order of two result dicts that the specification asks for: Price not decreasing
  and, for equal Price, Year not increasing.
\<close>

definition price_then_year :: "pyval \<Rightarrow> pyval \<Rightarrow> bool" where
  "price_then_year a b =
     (case (number_at ''Price'' a, number_at ''Price'' b, number_at ''Year'' a, number_at ''Year'' b) of
        (Some p, Some p', Some y, Some y') \<Rightarrow> p < p' \<or> (p = p' \<and> y' \<le> y)
      | _ \<Rightarrow> False)"



section \<open>Example data\<close>

text \<open>
  The two records of the specification's example scenario, and a table file that holds
  them before cleaning together with a row outside the year range and a row without a
  price.
\<close>

definition toyota :: "num row" where
  "toyota =
     \<lparr> Car_Make = Text ''Toyota'', Car_Model = Text ''Corolla'', Year = IntV 2018,
       Mileage = IntV 40000, Price = FloatV (Fin 12000), Fuel_Type = Text ''Gasoline'',
       Color = Text ''Red'', Transmission = Text ''Automatic'', Options_Features = Text ''GPS'',
       Condition = Text ''Used'', Accident = Text ''No'' \<rparr>"

definition honda :: "num row" where
  "honda =
     \<lparr> Car_Make = Text ''Honda'', Car_Model = Text ''Civic'', Year = IntV 2016,
       Mileage = IntV 60000, Price = FloatV (Fin 9000), Fuel_Type = Text ''Gasoline'',
       Color = Text ''Blue'', Transmission = Text ''Manual'',
       Options_Features = Num (FloatV NaN), Condition = Text ''Used'', Accident = Text ''No'' \<rparr>"

definition raw_toyota :: "cell row" where
  "raw_toyota =
     \<lparr> Car_Make = Text '' Toyota'', Car_Model = Text ''Corolla'', Year = Num (IntV 2018),
       Mileage = Num (IntV 40000), Price = Num (FloatV (Fin 12000)),
       Fuel_Type = Text ''Gasoline '', Color = Text ''Red'', Transmission = Text ''Automatic'',
       Options_Features = Text ''GPS'', Condition = Text ''Used'', Accident = Text ''No'' \<rparr>"

definition raw_honda :: "cell row" where
  "raw_honda =
     \<lparr> Car_Make = Text ''Honda'', Car_Model = Text ''Civic'', Year = Num (IntV 2016),
       Mileage = Num (IntV 60000), Price = Num (FloatV (Fin 9000)),
       Fuel_Type = Text ''Gasoline'', Color = Text ''Blue'', Transmission = Text ''Manual'',
       Options_Features = Num (FloatV NaN), Condition = Text ''Used'', Accident = Text ''No'' \<rparr>"

definition raw_old :: "cell row" where
  "raw_old = raw_honda\<lparr> Year := Num (IntV 2005) \<rparr>"

definition raw_unpriced :: "cell row" where
  "raw_unpriced = raw_toyota\<lparr> Price := Num (FloatV NaN) \<rparr>"

definition example_frame :: frame where
  "example_frame =
     \<lparr> columns = REQUIRED_COLUMNS, rows = [raw_toyota, raw_old, raw_honda, raw_unpriced] \<rparr>"

text \<open>A table file without the Price column.\<close>

definition unpriced_frame :: frame where
  "unpriced_frame =
     \<lparr> columns = filter (\<lambda>c. c \<noteq> ''Price'') REQUIRED_COLUMNS, rows = [] \<rparr>"

text \<open>
  A row of the file whose Fuel Type is missing and whose other cells are those of the
  Toyota, and the record that cleaning makes of it where \<^verbatim>\<open>astype(str)\<close> renders a
  missing cell as the text \<^verbatim>\<open>nan\<close>.
\<close>

definition raw_no_fuel :: "cell row" where
  "raw_no_fuel = raw_toyota\<lparr> Fuel_Type := Num (FloatV NaN) \<rparr>"

definition toyota_nan :: "num row" where
  "toyota_nan = toyota\<lparr> Fuel_Type := Text ''nan'' \<rparr>"

text \<open>
  The string methods on ASCII, where the whitespace characters are 9 to 13, 28 to 31
  and 32. The examples use ASCII strings only.
\<close>

definition is_space :: "char \<Rightarrow> bool" where
  "is_space c = (let n = (of_char c :: nat) in (9 \<le> n \<and> n \<le> 13) \<or> (28 \<le> n \<and> n \<le> 32))"

definition ascii_strip :: "string \<Rightarrow> string" where
  "ascii_strip s = rev (dropWhile is_space (rev (dropWhile is_space s)))"

definition lower_char :: "char \<Rightarrow> char" where
  "lower_char c = (let n = (of_char c :: nat) in if 65 \<le> n \<and> n \<le> 90 then char_of (n + 32) else c)"

definition ascii_lower :: "string \<Rightarrow> string" where
  "ascii_lower s = map lower_char s"

text \<open>
  An environment for the examples. The file is \<open>example_frame\<close>; the string methods
  are those on ASCII; a missing cell becomes the text \<^verbatim>\<open>nan\<close> under \<^verbatim>\<open>astype(str)\<close>;
  the comparison of a column with an integer beyond \<open>2^53\<close> raises; the regressor is
  the one value of type \<open>unit\<close> and predicts a constant. The examples pass strings
  where strings are expected and numbers where numbers are, so the other conversions
  across types are not consulted.
\<close>

definition example_env :: "unit extern" where
  "example_env =
     \<lparr> str_py = (\<lambda>v. ''''), int_str = (\<lambda>s. None), float_str = (\<lambda>s. None),
       float_big = (\<lambda>n. None), strip = ascii_strip, lower = ascii_lower,
       cmp_big = (\<lambda>n. None), parse_num = (\<lambda>s. FloatV NaN), str_missing = Text ''nan'',
       str_num = (\<lambda>v. ''''), read_csv = Inr example_frame,
       fit_regressor = (\<lambda>cats d. Inr ()), regress = (\<lambda>r xs. Inr (Fin 15000)),
       sort_by_price = (\<lambda>asc q. q), mean = (\<lambda>xs. NaN) \<rparr>"

definition example_model :: "unit pipeline" where
  "example_model =
     \<lparr> categories =
         [(''Fuel Type'', [Text ''Gasoline'']),
          (''Transmission'', [Text ''Automatic'', Text ''Manual'']),
          (''Condition'', [Text ''Used'']), (''Accident'', [Text ''No'']),
          (''Car Make'', [Text ''Honda'', Text ''Toyota'']),
          (''Car Model'', [Text ''Civic'', Text ''Corolla''])],
       handle_unknown = IgnoreUnknown, regressor = () \<rparr>"

definition example_state :: "unit state" where
  "example_state =
     \<lparr> df = Some [toyota, honda], model = Some example_model,
       feature_columns =
         Some [''Year'', ''Mileage'', ''Fuel Type'', ''Transmission'', ''Condition'',
               ''Accident'', ''Car Make'', ''Car Model''] \<rparr>"

text \<open>An integer bound far beyond the range of the floats.\<close>

definition huge :: int where
  "huge = 10 ^ 400"



section \<open>Verified properties\<close>

subsection \<open>Cleaning\<close>

lemma in_range_weak: "in_range x lo False hi = (fge x (Fin lo) \<and> fle x (Fin hi))"
  by (cases x) (simp_all add: in_range_def fge_def)

lemma in_range_strict: "in_range x lo True hi = (fgt x (Fin lo) \<and> fle x (Fin hi))"
  by (cases x) (simp_all add: in_range_def fgt_def)

lemma record_invariant_code:
  "record_invariant r =
     (dropna_row r
      \<and> (fge (val (Year r)) (Fin 2010) \<and> fle (val (Year r)) (Fin 2025))
      \<and> (fge (val (Mileage r)) (Fin 0) \<and> fle (val (Mileage r)) (Fin 300000))
      \<and> (fgt (val (Price r)) (Fin 0) \<and> fle (val (Price r)) (Fin 400000)))"
  unfolding record_invariant_def dropna_row_def in_range_weak in_range_strict
  by blast

lemma clean_df_filter:
  "clean_df E df0 = filter record_invariant (map (normalize_text E) (coerce_numeric E df0))"
  unfolding clean_df_def Let_def record_invariant_code
  by (simp add: conj_commute conj_left_commute cong: conj_cong)

lemma cleaned_clean_df: "cleaned (clean_df E df0)"
  by (simp add: cleaned_def clean_df_filter list_all_iff)

lemma example_clean_df: "clean_df example_env (rows example_frame) = [toyota, honda]"
  by code_simp

text \<open>
  C6. The code does not drop a row whose Fuel Type is missing in the file: where
  \<^verbatim>\<open>astype(str)\<close> renders a missing cell as the text \<^verbatim>\<open>nan\<close>, the column is converted
  at line 34 before \<^verbatim>\<open>dropna\<close> looks at it at line 37, and the row is kept with that
  text.
\<close>

theorem missing_fuel_type_kept:
  "isna (Fuel_Type raw_no_fuel)
   \<and> str_missing example_env = Text ''nan''
   \<and> clean_df example_env [raw_no_fuel] = [toyota_nan]
   \<and> Fuel_Type toyota_nan = Text ''nan''"
  by code_simp

subsection \<open>Filtering\<close>

lemma bind_simps:
  "bind (Inl e) f = Inl e" "bind (Inr v) f = f v"
  by (simp_all add: bind_def)

lemma exact_step_filter: "exact_step E args cf q = filter (exact_active E args cf) q"
  by (cases "map_of args (fst cf)")
     (auto simp: exact_step_def exact_active_def intro!: filter_cong)

lemma fold_exact_step:
  "fold (exact_step E args) cols q
     = filter (\<lambda>r. list_all (\<lambda>cf. exact_active E args cf r) cols) q"
proof (induction cols arbitrary: q)
  case Nil
  then show ?case by simp
next
  case (Cons cf cols)
  have "fold (exact_step E args) (cf # cols) q
          = filter (\<lambda>r. list_all (\<lambda>cf. exact_active E args cf r) cols)
              (filter (exact_active E args cf) q)"
    by (simp add: Cons.IH exact_step_filter)
  also have "\<dots> = filter (\<lambda>r. list_all (\<lambda>cf. exact_active E args cf r) (cf # cols)) q"
    by (simp add: conj_commute)
  finally show ?case .
qed

lemma range_filter_bound:
  "range_filter conv keep args k q =
     bind (bound conv args k) (\<lambda>b. Inr (filter (\<lambda>r. holds b (\<lambda>x. keep x r)) q))"
  by (cases "map_of args k"; cases "conv (py_get args k PNone)")
     (auto simp: range_filter_def bound_def py_get_def bind_def holds_def)

lemma apply_filters_bounds:
  "apply_filters E d args =
     bind (bounds_of E args) (\<lambda>b. Inr (filter (satisfies E args b) d))"
proof -
  have sat: "satisfies E args b =
      (\<lambda>r. list_all (\<lambda>cf. exact_active E args cf r) exact_columns \<and> within_bounds b r)" for b
    by (rule ext) (simp add: satisfies_def)
  show ?thesis
    unfolding apply_filters_def Let_def fold_exact_step range_filter_bound bounds_of_def sat
    by (cases "bound (int_bound E) args ''Year_min''";
        cases "bound (int_bound E) args ''Year_max''";
        cases "bound (py_float E) args ''Price_max''";
        cases "bound (py_float E) args ''Mileage_max''")
       (auto simp: bind_simps within_bounds_def year_ge_def year_le_def price_le_def
             mileage_le_def intro!: filter_cong)
qed

lemma no_criteria:
  assumes "list_all (\<lambda>k. \<not> py_in k args) criteria_keys"
  shows "apply_filters E d args = Inr d"
proof -
  from assms have none:
    "map_of args ''Car Make'' = None" "map_of args ''Car Model'' = None"
    "map_of args ''Fuel Type'' = None" "map_of args ''Transmission'' = None"
    "map_of args ''Condition'' = None" "map_of args ''Accident'' = None"
    "map_of args ''Year_min'' = None" "map_of args ''Year_max'' = None"
    "map_of args ''Price_max'' = None" "map_of args ''Mileage_max'' = None"
    by (simp_all add: criteria_keys_def exact_columns_def py_in_def)
  have b: "bounds_of E args
             = Inr \<lparr> Year_min = None, Year_max = None, Price_max = None, Mileage_max = None \<rparr>"
    by (simp add: bounds_of_def bound_def none bind_simps)
  have "satisfies E args
          \<lparr> Year_min = None, Year_max = None, Price_max = None, Mileage_max = None \<rparr> r" for r
    by (simp add: satisfies_def exact_active_def exact_columns_def none within_bounds_def
          holds_def)
  then show ?thesis
    by (simp add: apply_filters_bounds b bind_simps)
qed

lemma int_bound_small:
  "py_int E v = Inr n \<Longrightarrow> \<bar>n\<bar> \<le> 2 ^ 53 \<Longrightarrow> int_bound E v = Inr (Fin (of_int n))"
  by (simp add: int_bound_def int_operand_def bind_simps)

lemma int_bound_overflow:
  "py_int E v = Inr n \<Longrightarrow> 2 ^ 53 < \<bar>n\<bar> \<Longrightarrow> cmp_big E n = None
     \<Longrightarrow> int_bound E v = Inl (OverflowError n)"
  by (simp add: int_bound_def int_operand_def bind_simps)

text \<open>
  C1, as the code has it. When a numeric bound that is present does not convert, or
  the comparison of the Year column with an integer bound raises, the filter raises.
  Otherwise the subset is the table restricted, in its order, to the records that
  satisfy every exact-match predicate whose value is truthy and every numeric bound
  that is present and not \<open>None\<close>. An integer bound up to \<open>2^53\<close> in magnitude is
  compared as it is; for a larger one the comparison raises when the table library
  cannot convert it. With no criteria the subset is the whole table.
\<close>

theorem apply_filters_exactly:
  "apply_filters E d args =
     (case bounds_of E args of
        Inl e \<Rightarrow> Inl e
      | Inr b \<Rightarrow> Inr (filter (satisfies E args b) d))
   \<and> (list_all (\<lambda>k. \<not> py_in k args) criteria_keys \<longrightarrow> apply_filters E d args = Inr d)
   \<and> (py_int E v = Inr n \<and> \<bar>n\<bar> \<le> 2 ^ 53 \<longrightarrow> int_bound E v = Inr (Fin (of_int n)))
   \<and> (py_int E v = Inr n \<and> 2 ^ 53 < \<bar>n\<bar> \<and> cmp_big E n = None \<longrightarrow>
        int_bound E v = Inl (OverflowError n))"
  using no_criteria[of args E d] int_bound_small[of E v n] int_bound_overflow[of E v n]
  by (simp add: apply_filters_bounds bind_def)

theorem apply_filters_exactly_witness:
  "apply_filters example_env [toyota, honda]
     [(''Fuel Type'', PStr '' GASOLINE ''), (''Year_min'', PInt 2017)] = Inr [toyota]
   \<and> apply_filters example_env [toyota, honda] [(''limit'', PInt 5)] = Inr [toyota, honda]
   \<and> apply_filters example_env [toyota, honda] [(''Year_min'', PInt huge)]
       = Inl (OverflowError huge)"
proof (intro conjI)
  have b: "bounds_of example_env
             [(''Fuel Type'', PStr '' GASOLINE ''), (''Year_min'', PInt 2017)]
           = Inr \<lparr> Year_min = Some (Fin 2017), Year_max = None, Price_max = None,
                   Mileage_max = None \<rparr>"
    by code_simp
  have f: "filter (satisfies example_env
                     [(''Fuel Type'', PStr '' GASOLINE ''), (''Year_min'', PInt 2017)]
                     \<lparr> Year_min = Some (Fin 2017), Year_max = None, Price_max = None,
                       Mileage_max = None \<rparr>) [toyota, honda] = [toyota]"
    by code_simp
  show "apply_filters example_env [toyota, honda]
     [(''Fuel Type'', PStr '' GASOLINE ''), (''Year_min'', PInt 2017)] = Inr [toyota]"
    using apply_filters_exactly[of example_env "[toyota, honda]"
        "[(''Fuel Type'', PStr '' GASOLINE ''), (''Year_min'', PInt 2017)]"]
    by (simp only: b f sum.case)
  have n: "list_all (\<lambda>k. \<not> py_in k [(''limit'', PInt 5)]) criteria_keys"
    by code_simp
  show "apply_filters example_env [toyota, honda] [(''limit'', PInt 5)] = Inr [toyota, honda]"
    using apply_filters_exactly[of example_env "[toyota, honda]" "[(''limit'', PInt 5)]"] n
    by blast
  have big: "(2::int) ^ 53 < \<bar>huge\<bar>"
    by (simp add: huge_def)
  have c: "py_int example_env (PInt huge) = Inr huge"
    "cmp_big example_env huge = None"
    by (simp_all add: example_env_def)
  from apply_filters_exactly[of example_env "[toyota, honda]" "[(''Year_min'', PInt huge)]"
      "PInt huge" huge] big c
  have ib: "int_bound example_env (PInt huge) = Inl (OverflowError huge)"
    and af: "apply_filters example_env [toyota, honda] [(''Year_min'', PInt huge)] =
       (case bounds_of example_env [(''Year_min'', PInt huge)] of
          Inl e \<Rightarrow> Inl e
        | Inr b \<Rightarrow> Inr (filter (satisfies example_env [(''Year_min'', PInt huge)] b)
                          [toyota, honda]))"
    by blast+
  have "bounds_of example_env [(''Year_min'', PInt huge)] = Inl (OverflowError huge)"
    by (simp add: bounds_of_def bound_def ib bind_simps)
  with af show "apply_filters example_env [toyota, honda] [(''Year_min'', PInt huge)]
       = Inl (OverflowError huge)"
    by simp
qed

text \<open>
  The statement of C1 with every predicate that is present fails: with the criteria
  \<^verbatim>\<open>{"Car Make": ""}\<close> the Toyota record is in the subset, and its make is not the
  empty string.
\<close>

theorem apply_filters_present_counterexample:
  "apply_filters example_env [toyota] [(''Car Make'', PStr '''')] = Inr [toyota]
   \<and> bounds_of example_env [(''Car Make'', PStr '''')]
        = Inr \<lparr> Year_min = None, Year_max = None, Price_max = None, Mileage_max = None \<rparr>
   \<and> \<not> satisfies_present example_env [(''Car Make'', PStr '''')]
          \<lparr> Year_min = None, Year_max = None, Price_max = None, Mileage_max = None \<rparr> toyota"
  by code_simp

lemma exact_active_delete:
  assumes "map_of args k = Some v" "\<not> truthy v"
  shows "exact_active E (AList.delete k args) cf r = exact_active E args cf r"
  using assms by (simp add: exact_active_def delete_conv')

lemma bound_delete: "k' \<noteq> k \<Longrightarrow> bound conv (AList.delete k args) k' = bound conv args k'"
  by (simp add: bound_def delete_conv')

lemma bounds_of_delete:
  assumes "k \<notin> {''Year_min'', ''Year_max'', ''Price_max'', ''Mileage_max''}"
  shows "bounds_of E (AList.delete k args) = bounds_of E args"
proof -
  from assms have "''Year_min'' \<noteq> k" "''Year_max'' \<noteq> k" "''Price_max'' \<noteq> k" "''Mileage_max'' \<noteq> k"
    by auto
  then show ?thesis
    by (simp add: bounds_of_def bound_delete)
qed

text \<open>
  C10. An exact-match criterion whose value is falsy is skipped: filtering with such a
  field present gives what filtering gives with the field removed from the criteria.
\<close>

theorem falsy_exact_value_skipped:
  assumes "k \<in> fst ` set exact_columns" "map_of args k = Some v" "\<not> truthy v"
  shows "apply_filters E d args = apply_filters E d (AList.delete k args)"
proof -
  from assms(1) have "k \<notin> {''Year_min'', ''Year_max'', ''Price_max'', ''Mileage_max''}"
    by (auto simp: exact_columns_def)
  then have b: "bounds_of E (AList.delete k args) = bounds_of E args"
    by (rule bounds_of_delete)
  have "satisfies E (AList.delete k args) = satisfies E args"
    by (intro ext) (simp add: satisfies_def exact_active_delete[OF assms(2,3)])
  with b show ?thesis
    by (simp add: apply_filters_bounds)
qed

theorem falsy_exact_value_skipped_witness:
  "apply_filters example_env [toyota, honda] [(''Car Make'', PStr ''''), (''Year_min'', PInt 2017)]
     = apply_filters example_env [toyota, honda] [(''Year_min'', PInt 2017)]
   \<and> apply_filters example_env [toyota, honda] [(''Year_min'', PInt 2017)] = Inr [toyota]"
proof -
  have k: "''Car Make'' \<in> fst ` set exact_columns"
    by (simp add: exact_columns_def)
  have m: "map_of [(''Car Make'', PStr ''''), (''Year_min'', PInt 2017)] ''Car Make'' = Some (PStr '''')"
    by simp
  have t: "\<not> truthy (PStr '''')" by simp
  have d: "AList.delete ''Car Make'' [(''Car Make'', PStr ''''), (''Year_min'', PInt 2017)] = [(''Year_min'', PInt 2017)]"
    by (simp add: AList.delete_eq)
  have e: "apply_filters example_env [toyota, honda] [(''Year_min'', PInt 2017)] = Inr [toyota]"
    by code_simp
  from falsy_exact_value_skipped[OF k m t, of example_env "[toyota, honda]"] d e
  show ?thesis by simp
qed

subsection \<open>Ranking\<close>

lemma apply_filters_cleaned:
  assumes "apply_filters E d args = Inr q" "cleaned d"
  shows "cleaned q"
proof -
  from assms(1) obtain b where "q = filter (satisfies E args b) d"
    by (auto simp: apply_filters_bounds bind_def split: sum.splits)
  with assms(2) show ?thesis
    by (simp add: cleaned_def list_all_iff)
qed

lemma number_at_to_dict:
  assumes "record_invariant r" "cols = filter_cars_cols \<or> cols = recommend_cols"
  shows "\<exists>p y. val (Price r) = Fin p \<and> val (Year r) = Fin y
           \<and> number_at ''Price'' (to_dict cols r) = Some p
           \<and> number_at ''Year'' (to_dict cols r) = Some y"
proof -
  from assms(1) obtain p y where py: "val (Price r) = Fin p" "val (Year r) = Fin y"
    by (cases "val (Price r)"; cases "val (Year r)")
       (auto simp: record_invariant_def in_range_def)
  from assms(2) have "number_at ''Price'' (to_dict cols r) = Some p
           \<and> number_at ''Year'' (to_dict cols r) = Some y"
    using py
    by (cases "Price r"; cases "Year r")
       (auto simp: number_at_def to_dict_def filter_cars_cols_def recommend_cols_def
          py_num_def val_def)
  with py show ?thesis by blast
qed

lemma key_le_price_then_year:
  assumes "record_invariant x" "record_invariant y"
    and "cols = filter_cars_cols \<or> cols = recommend_cols"
    and "(price_key (val (Price x)), year_key (val (Year x)))
           \<le> (price_key (val (Price y)), year_key (val (Year y)))"
  shows "price_then_year (to_dict cols x) (to_dict cols y)"
proof -
  from number_at_to_dict[OF assms(1,3)] obtain p a where
    x: "val (Price x) = Fin p" "val (Year x) = Fin a" "number_at ''Price'' (to_dict cols x) = Some p"
       "number_at ''Year'' (to_dict cols x) = Some a" by blast
  from number_at_to_dict[OF assms(2,3)] obtain p' a' where
    y: "val (Price y) = Fin p'" "val (Year y) = Fin a'" "number_at ''Price'' (to_dict cols y) = Some p'"
       "number_at ''Year'' (to_dict cols y) = Some a'" by blast
  from assms(4) have "p < p' \<or> (p = p' \<and> a' \<le> a)"
    by (auto simp: x y price_key_def year_key_def less_eq_prod_def less_prod_def)
  then show ?thesis
    by (simp add: price_then_year_def x y)
qed

lemma sorted_wrt_head: "sorted_wrt R xs \<Longrightarrow> sorted_wrt R (head n xs)"
  by (simp add: head_def sorted_wrt_take)

lemma set_head: "set (head n xs) \<subseteq> set xs"
  by (auto simp: head_def dest: in_set_takeD)

lemma length_head: "0 \<le> n \<Longrightarrow> int (length (head n xs)) \<le> n"
  by (simp add: head_def)

lemma ranked_sorted:
  assumes "cleaned q" "cols = filter_cars_cols \<or> cols = recommend_cols"
  shows "sorted_wrt price_then_year (map (to_dict cols) (head n (sort_price_year q)))"
proof -
  let ?key = "\<lambda>r. (price_key (val (Price r)), year_key (val (Year r)))"
  have "sorted (map ?key (sort_price_year q))"
    by (simp add: sort_price_year_def)
  then have "sorted_wrt (\<lambda>x y. ?key x \<le> ?key y) (sort_price_year q)"
    by (simp add: sorted_map)
  then have s: "sorted_wrt (\<lambda>x y. ?key x \<le> ?key y) (head n (sort_price_year q))"
    by (rule sorted_wrt_head)
  have inv: "record_invariant r" if "r \<in> set (head n (sort_price_year q))" for r
    using that assms(1) set_head[of n "sort_price_year q"]
    by (auto simp: cleaned_def list_all_iff sort_price_year_def)
  have "sorted_wrt (\<lambda>x y. price_then_year (to_dict cols x) (to_dict cols y))
          (head n (sort_price_year q))"
  proof (rule sorted_wrt_mono_rel[OF _ s])
    fix x y
    assume "x \<in> set (head n (sort_price_year q))" "y \<in> set (head n (sort_price_year q))"
      and "?key x \<le> ?key y"
    then show "price_then_year (to_dict cols x) (to_dict cols y)"
      using key_le_price_then_year[OF inv inv assms(2)] by blast
  qed
  then show ?thesis
    by (simp add: sorted_wrt_map)
qed

text \<open>
  C5, as the code has it. On a cleaned table, the list that \<^verbatim>\<open>filter_cars\<close> returns
  under \<^verbatim>\<open>results\<close> and the list that \<^verbatim>\<open>recommend\<close> returns under
  \<^verbatim>\<open>recommendations\<close> are sorted by Price, not decreasing, and for equal Price by Year,
  not increasing; \<^verbatim>\<open>count\<close> is the length of the list; and when the limit (default 20
  for \<^verbatim>\<open>filter_cars\<close>, 10 for \<^verbatim>\<open>recommend\<close>) is not negative the list is no longer
  than the limit.
\<close>

theorem ranked_results_sorted_and_limited:
  assumes "cleaned d"
  shows "(tool_filter_cars E d args = Inr res \<longrightarrow>
            (\<exists>out limit. py_int E (py_get args ''limit'' (PInt 20)) = Inr limit
               \<and> res = PDict [(''count'', PInt (int (length out))), (''results'', PList out)]
               \<and> sorted_wrt price_then_year out
               \<and> (0 \<le> limit \<longrightarrow> int (length out) \<le> limit)))
       \<and> (tool_recommend E d args = Inr res' \<longrightarrow>
            (\<exists>out limit b. py_int E (py_get args ''limit'' (PInt 10)) = Inr limit
               \<and> res' = PDict [(''budget_max'', PFloat b), (''count'', PInt (int (length out))),
                               (''recommendations'', PList out)]
               \<and> sorted_wrt price_then_year out
               \<and> (0 \<le> limit \<longrightarrow> int (length out) \<le> limit)))"
proof (intro conjI impI)
  assume r: "tool_filter_cars E d args = Inr res"
  then obtain q limit where q: "apply_filters E d args = Inr q"
    and l: "py_int E (py_get args ''limit'' (PInt 20)) = Inr limit"
    and res: "res = PDict [(''count'', PInt (int (length (map (to_dict filter_cars_cols) (head limit (sort_price_year q)))))),
                           (''results'', PList (map (to_dict filter_cars_cols) (head limit (sort_price_year q))))]"
    by (auto simp: tool_filter_cars_def bind_def Let_def split: sum.splits)
  from q assms have "cleaned q" by (rule apply_filters_cleaned)
  then have "sorted_wrt price_then_year (map (to_dict filter_cars_cols) (head limit (sort_price_year q)))"
    by (rule ranked_sorted) simp
  moreover have "0 \<le> limit \<longrightarrow> int (length (map (to_dict filter_cars_cols) (head limit (sort_price_year q)))) \<le> limit"
    by (simp add: length_head)
  ultimately show "\<exists>out limit. py_int E (py_get args ''limit'' (PInt 20)) = Inr limit
               \<and> res = PDict [(''count'', PInt (int (length out))), (''results'', PList out)]
               \<and> sorted_wrt price_then_year out
               \<and> (0 \<le> limit \<longrightarrow> int (length out) \<le> limit)"
    using l res by blast
next
  assume r: "tool_recommend E d args = Inr res'"
  then obtain q limit b where
    q: "apply_filters E d (AList.update ''Price_max'' (py_get args ''budget_max'' PNone) args) = Inr q"
    and l: "py_int E (py_get args ''limit'' (PInt 10)) = Inr limit"
    and res: "res' = PDict [(''budget_max'', PFloat b),
                           (''count'', PInt (int (length (map (to_dict recommend_cols) (head limit (sort_price_year q)))))),
                           (''recommendations'', PList (map (to_dict recommend_cols) (head limit (sort_price_year q))))]"
    by (auto simp: tool_recommend_def bind_def Let_def split: sum.splits if_splits)
  from q assms have "cleaned q" by (rule apply_filters_cleaned)
  then have "sorted_wrt price_then_year (map (to_dict recommend_cols) (head limit (sort_price_year q)))"
    by (rule ranked_sorted) simp
  moreover have "0 \<le> limit \<longrightarrow> int (length (map (to_dict recommend_cols) (head limit (sort_price_year q)))) \<le> limit"
    by (simp add: length_head)
  ultimately show "\<exists>out limit b. py_int E (py_get args ''limit'' (PInt 10)) = Inr limit
               \<and> res' = PDict [(''budget_max'', PFloat b), (''count'', PInt (int (length out))),
                               (''recommendations'', PList out)]
               \<and> sorted_wrt price_then_year out
               \<and> (0 \<le> limit \<longrightarrow> int (length out) \<le> limit)"
    using l res by blast
qed

theorem ranked_results_sorted_and_limited_witness:
  "cleaned [toyota, honda]
   \<and> tool_filter_cars example_env [toyota, honda] [(''limit'', PInt 2)]
       = Inr (PDict [(''count'', PInt 2),
                     (''results'', PList [to_dict filter_cars_cols honda,
                                          to_dict filter_cars_cols toyota])])
   \<and> sorted_wrt price_then_year [to_dict filter_cars_cols honda, to_dict filter_cars_cols toyota]
   \<and> tool_recommend example_env [toyota, honda] [(''budget_max'', PInt 10000)]
       = Inr (PDict [(''budget_max'', PFloat (Fin 10000)), (''count'', PInt 1),
                     (''recommendations'', PList [to_dict recommend_cols honda])])
   \<and> sorted_wrt price_then_year [to_dict recommend_cols honda]"
proof -
  have c: "cleaned [toyota, honda]"
    by code_simp
  have f: "tool_filter_cars example_env [toyota, honda] [(''limit'', PInt 2)]
       = Inr (PDict [(''count'', PInt 2),
                     (''results'', PList [to_dict filter_cars_cols honda,
                                          to_dict filter_cars_cols toyota])])"
    by code_simp
  have r: "tool_recommend example_env [toyota, honda] [(''budget_max'', PInt 10000)]
       = Inr (PDict [(''budget_max'', PFloat (Fin 10000)), (''count'', PInt 1),
                     (''recommendations'', PList [to_dict recommend_cols honda])])"
    by code_simp
  from ranked_results_sorted_and_limited[OF c, of example_env "[(''limit'', PInt 2)]"] f
  obtain out where
    "PDict [(''count'', PInt 2),
            (''results'', PList [to_dict filter_cars_cols honda, to_dict filter_cars_cols toyota])]
       = PDict [(''count'', PInt (int (length out))), (''results'', PList out)]"
    and "sorted_wrt price_then_year out"
    by blast
  then have sf: "sorted_wrt price_then_year
              [to_dict filter_cars_cols honda, to_dict filter_cars_cols toyota]"
    by simp
  from ranked_results_sorted_and_limited[OF c, of example_env "[(''budget_max'', PInt 10000)]"] r
  obtain out' b where
    "PDict [(''budget_max'', PFloat (Fin 10000)), (''count'', PInt 1),
            (''recommendations'', PList [to_dict recommend_cols honda])]
       = PDict [(''budget_max'', PFloat b), (''count'', PInt (int (length out'))),
                (''recommendations'', PList out')]"
    and "sorted_wrt price_then_year out'"
    by blast
  then have sr: "sorted_wrt price_then_year [to_dict recommend_cols honda]"
    by simp
  from c f r sf sr show ?thesis by blast
qed

text \<open>
  The bound of C5 fails for a negative limit: with \<^verbatim>\<open>limit = -1\<close> on the two example
  records \<^verbatim>\<open>head\<close> leaves out the last row and one record is returned.
\<close>

theorem negative_limit_counterexample:
  "cleaned [toyota, honda]
   \<and> py_int example_env (py_get [(''limit'', PInt (- 1))] ''limit'' (PInt 20)) = Inr (- 1)
   \<and> tool_filter_cars example_env [toyota, honda] [(''limit'', PInt (- 1))]
       = Inr (PDict [(''count'', PInt 1), (''results'', PList [to_dict filter_cars_cols honda])])
   \<and> \<not> int (length [to_dict filter_cars_cols honda]) \<le> - 1"
  by code_simp

subsection \<open>What the handlers read\<close>








subsection \<open>The server\<close>

lemma init_ready:
  assumes "init_data_and_model E st = Inr st'"
  shows "df st' \<noteq> None \<and> model st' \<noteq> None"
  using assms
  by (auto simp: init_data_and_model_def bind_def Let_def split: sum.splits)

lemma lazy_init_ready:
  assumes "lazy_init E st = Inr st'"
  shows "df st' \<noteq> None \<and> model st' \<noteq> None"
  using assms init_ready[of E st st']
  by (auto simp: lazy_init_def split: if_splits)

lemma lazy_init_stable: "df st \<noteq> None \<and> model st \<noteq> None \<Longrightarrow> lazy_init E st = Inr st"
  unfolding lazy_init_def by auto

lemma call_tool_ready:
  "df st \<noteq> None \<and> model st \<noteq> None \<Longrightarrow>
   call_tool E st name arguments = (Inr (dispatch E st name arguments), st)"
  by (simp add: call_tool_def lazy_init_stable)





lemma init_raises:
  "init_data_and_model E st = Inl e \<longleftrightarrow>
     read_csv E = Inl e
     \<or> (\<exists>raw. read_csv E = Inr raw
            \<and> (check_columns raw = Inl e
               \<or> (check_columns raw = Inr raw \<and> fit E IgnoreUnknown (clean_df E (rows raw)) = Inl e)))"
proof (cases "read_csv E")
  case (Inl e')
  then show ?thesis by (simp add: init_data_and_model_def bind_simps)
next
  case (Inr raw)
  have c: "check_columns raw = Inr raw \<or> (\<exists>e'. check_columns raw = Inl e')"
    by (simp add: check_columns_def Let_def)
  show ?thesis
  proof (cases "check_columns raw")
    case (Inl e')
    with Inr show ?thesis by (simp add: init_data_and_model_def bind_simps)
  next
    case r: (Inr raw')
    with c have "raw' = raw" by auto
    with r Inr show ?thesis
      by (cases "fit E IgnoreUnknown (clean_df E (rows raw))")
         (simp_all add: init_data_and_model_def bind_simps Let_def)
  qed
qed

text \<open>
  C2, as the code has it. When the lazy initialisation succeeds, and so on every
  initialised state, \<^verbatim>\<open>call_tool\<close> returns a payload and raises nothing: the dict of
  the handler, or for any exception that the handler raised the error payload with
  that exception and the arguments. An exception leaves \<^verbatim>\<open>call_tool\<close> exactly when
  the state is not initialised and reading the file, checking its columns or fitting
  the model raises; the state is then as it was.
\<close>

theorem call_tool_payload:
  "(lazy_init E st = Inr st' \<longrightarrow>
      call_tool E st name arguments
        = (Inr (case route E st' name arguments of
                  Inl e \<Rightarrow> ErrorPayload e arguments
                | Inr result \<Rightarrow> Result result), st'))
   \<and> (df st \<noteq> None \<and> model st \<noteq> None \<longrightarrow> lazy_init E st = Inr st)
   \<and> (fst (call_tool E st name arguments) = Inl e \<longleftrightarrow>
        (df st = None \<or> model st = None)
        \<and> (read_csv E = Inl e
           \<or> (\<exists>raw. read_csv E = Inr raw
                  \<and> (check_columns raw = Inl e
                     \<or> (check_columns raw = Inr raw
                        \<and> fit E IgnoreUnknown (clean_df E (rows raw)) = Inl e)))))
   \<and> (fst (call_tool E st name arguments) = Inl e \<longrightarrow> snd (call_tool E st name arguments) = st)"
proof (intro conjI impI)
  show "call_tool E st name arguments
        = (Inr (case route E st' name arguments of
                  Inl e \<Rightarrow> ErrorPayload e arguments
                | Inr result \<Rightarrow> Result result), st')"
    if "lazy_init E st = Inr st'"
    using that by (simp add: call_tool_def dispatch_def)
  show "lazy_init E st = Inr st" if "df st \<noteq> None \<and> model st \<noteq> None"
    using that by (rule lazy_init_stable)
  have "fst (call_tool E st name arguments) = Inl e \<longleftrightarrow> lazy_init E st = Inl e"
    by (cases "lazy_init E st") (simp_all add: call_tool_def)
  also have "\<dots> \<longleftrightarrow> (df st = None \<or> model st = None) \<and> init_data_and_model E st = Inl e"
    by (auto simp: lazy_init_def)
  finally show "fst (call_tool E st name arguments) = Inl e \<longleftrightarrow>
        (df st = None \<or> model st = None)
        \<and> (read_csv E = Inl e
           \<or> (\<exists>raw. read_csv E = Inr raw
                  \<and> (check_columns raw = Inl e
                     \<or> (check_columns raw = Inr raw
                        \<and> fit E IgnoreUnknown (clean_df E (rows raw)) = Inl e))))"
    by (simp only: init_raises)
  show "snd (call_tool E st name arguments) = st"
    if "fst (call_tool E st name arguments) = Inl e"
    using that by (cases "lazy_init E st") (simp_all add: call_tool_def)
qed

theorem call_tool_payload_witness:
  "call_tool example_env example_state ''filter_cars'' [(''limit'', PNone)]
     = (Inr (ErrorPayload (BadInt PNone) [(''limit'', PNone)]), example_state)
   \<and> call_tool (example_env\<lparr> read_csv := Inl (LibraryError ''FileNotFoundError'') \<rparr>)
        (STATE :: unit state) ''filter_cars'' []
     = (Inl (LibraryError ''FileNotFoundError''), STATE)"
proof
  have r: "df example_state \<noteq> None \<and> model example_state \<noteq> None"
    by code_simp
  have h: "route example_env example_state ''filter_cars'' [(''limit'', PNone)]
             = Inl (BadInt PNone)"
    by code_simp
  from call_tool_payload[of example_env example_state example_state] r
  have "call_tool example_env example_state ''filter_cars'' [(''limit'', PNone)]
        = (Inr (case route example_env example_state ''filter_cars'' [(''limit'', PNone)] of
                  Inl e \<Rightarrow> ErrorPayload e [(''limit'', PNone)]
                | Inr result \<Rightarrow> Result result), example_state)"
    by blast
  then show "call_tool example_env example_state ''filter_cars'' [(''limit'', PNone)]
     = (Inr (ErrorPayload (BadInt PNone) [(''limit'', PNone)]), example_state)"
    by (simp only: h sum.case)
  let ?E = "example_env\<lparr> read_csv := Inl (LibraryError ''FileNotFoundError'') \<rparr>"
  have u: "df (STATE :: unit state) = None" "read_csv ?E = Inl (LibraryError ''FileNotFoundError'')"
    by (simp_all add: STATE_def)
  from call_tool_payload[of ?E "STATE :: unit state" _ "''filter_cars''" "[]"
        "LibraryError ''FileNotFoundError''"] u
  have "fst (call_tool ?E (STATE :: unit state) ''filter_cars'' [])
          = Inl (LibraryError ''FileNotFoundError'')
        \<and> snd (call_tool ?E (STATE :: unit state) ''filter_cars'' []) = STATE"
    by blast
  then show "call_tool ?E (STATE :: unit state) ''filter_cars'' []
     = (Inl (LibraryError ''FileNotFoundError''), STATE)"
    by (simp add: prod_eq_iff)
qed

text \<open>
  C2 as stated fails on the first call when the table file lacks a required column:
  the \<^verbatim>\<open>ValueError\<close> of \<^verbatim>\<open>_check_columns\<close> is raised outside the \<^verbatim>\<open>try\<close>.
\<close>

theorem call_tool_raises_counterexample:
  "call_tool (example_env\<lparr> read_csv := Inr unpriced_frame \<rparr>) (STATE :: unit state)
     ''filter_cars'' []
   = (Inl (MissingColumns [''Price'']), STATE)"
  by code_simp

text \<open>
  C3, as the code has it. For a name that is none of the five declared tools, when
  the lazy initialisation succeeds the payload is the dict with the single entry
  \<^verbatim>\<open>error\<close>, \<^verbatim>\<open>Unknown tool: <name>\<close>, and nothing is raised; on an initialised state
  the state is left as it was.
\<close>

theorem unknown_tool:
  "name \<notin> set (map fst list_tools) \<longrightarrow>
     (lazy_init E st = Inr st' \<longrightarrow>
        call_tool E st name arguments
          = (Inr (Result (PDict [(''error'', PStr (''Unknown tool: '' @ name))])), st'))
     \<and> (df st \<noteq> None \<and> model st \<noteq> None \<longrightarrow>
        call_tool E st name arguments
          = (Inr (Result (PDict [(''error'', PStr (''Unknown tool: '' @ name))])), st))"
proof (intro impI conjI)
  assume "name \<notin> set (map fst list_tools)"
  then have r: "route E s name arguments
                  = Inr (PDict [(''error'', PStr (''Unknown tool: '' @ name))])" for s
    by (simp add: list_tools_def route_def)
  show "call_tool E st name arguments
          = (Inr (Result (PDict [(''error'', PStr (''Unknown tool: '' @ name))])), st')"
    if "lazy_init E st = Inr st'"
    using that by (simp add: call_tool_def dispatch_def r)
  show "call_tool E st name arguments
          = (Inr (Result (PDict [(''error'', PStr (''Unknown tool: '' @ name))])), st)"
    if "df st \<noteq> None \<and> model st \<noteq> None"
    using that by (simp add: call_tool_ready dispatch_def r)
qed

theorem unknown_tool_witness:
  "call_tool example_env example_state ''nope'' [(''limit'', PInt 1)]
     = (Inr (Result (PDict [(''error'', PStr ''Unknown tool: nope'')])), example_state)"
proof -
  have n: "''nope'' \<notin> set (map fst list_tools)"
    by (simp add: list_tools_def)
  have r: "df example_state \<noteq> None \<and> model example_state \<noteq> None"
    by code_simp
  from unknown_tool[of "''nope''" example_env example_state example_state] n r
  show ?thesis by simp
qed

text \<open>
  C3 as stated fails on an uninitialised state: the call with an unknown name loads the
  table and fits the model before it looks at the name.
\<close>

theorem unknown_tool_initializes_counterexample:
  "''nope'' \<notin> set (map fst list_tools)
   \<and> call_tool example_env (STATE :: unit state) ''nope'' []
       = (Inr (Result (PDict [(''error'', PStr ''Unknown tool: nope'')])), example_state)
   \<and> df (STATE :: unit state) = None
   \<and> df example_state = Some [toyota, honda]"
  by code_simp

text \<open>
  C9. After a call that returned a payload the state holds the table and the model, and
  every later call, whatever the table file then holds, runs no initialisation and
  leaves the state as it is.
\<close>

theorem lazy_init_idempotent:
  "fst (call_tool E st name arguments) = Inr p \<longrightarrow>
     (let st' = snd (call_tool E st name arguments) in
        df st' \<noteq> None \<and> model st' \<noteq> None
        \<and> lazy_init E' st' = Inr st'
        \<and> call_tool E' st' name' arguments' = (Inr (dispatch E' st' name' arguments'), st'))"
proof
  assume a: "fst (call_tool E st name arguments) = Inr p"
  then obtain st' where i: "lazy_init E st = Inr st'" and s: "snd (call_tool E st name arguments) = st'"
    by (auto simp: call_tool_def split: sum.splits)
  from i have r: "df st' \<noteq> None \<and> model st' \<noteq> None"
    by (rule lazy_init_ready)
  then show "let st' = snd (call_tool E st name arguments) in
        df st' \<noteq> None \<and> model st' \<noteq> None
        \<and> lazy_init E' st' = Inr st'
        \<and> call_tool E' st' name' arguments' = (Inr (dispatch E' st' name' arguments'), st')"
    unfolding s Let_def using lazy_init_stable[OF r] call_tool_ready[OF r] by blast
qed

theorem lazy_init_idempotent_witness:
  "call_tool example_env (STATE :: unit state) ''filter_cars'' []
     = (Inr (Result (PDict [(''count'', PInt 2),
                            (''results'', PList [to_dict filter_cars_cols honda,
                                                 to_dict filter_cars_cols toyota])])),
        example_state)
   \<and> snd (call_tool (example_env\<lparr> read_csv := Inr unpriced_frame \<rparr>) example_state
            ''average_price'' []) = example_state"
proof -
  have c: "call_tool example_env (STATE :: unit state) ''filter_cars'' []
     = (Inr (Result (PDict [(''count'', PInt 2),
                            (''results'', PList [to_dict filter_cars_cols honda,
                                                 to_dict filter_cars_cols toyota])])),
        example_state)"
    by code_simp
  from lazy_init_idempotent[of example_env "STATE :: unit state" "''filter_cars''" "[]" _
      "example_env\<lparr> read_csv := Inr unpriced_frame \<rparr>" "''average_price''" "[]"] c
  have "snd (call_tool (example_env\<lparr> read_csv := Inr unpriced_frame \<rparr>) example_state
            ''average_price'' []) = example_state"
    by (simp add: Let_def)
  with c show ?thesis by blast
qed

subsection \<open>Validation of the arguments\<close>

text \<open>Every declared schema is closed: it has \<^verbatim>\<open>additionalProperties: False\<close>.\<close>

lemma schemas_closed:
  "map_of list_tools name = Some sch \<Longrightarrow> \<not> additionalProperties sch"
  by (auto simp: list_tools_def split: if_splits)

lemma undeclared_invalid:
  assumes "map_of list_tools name = Some sch" "py_in k arguments"
    "k \<notin> set (map fst (properties sch))"
  shows "\<not> valid sch arguments"
proof -
  from assms(2) obtain v where "(k, v) \<in> set arguments"
    by (auto simp: py_in_def dest: map_of_SomeD)
  with assms(3) have "\<not> list_all (\<lambda>kv. fst kv \<in> set (map fst (properties sch))) arguments"
    unfolding list_all_iff by force
  with schemas_closed[OF assms(1)] show ?thesis
    by (simp add: valid_def)
qed

text \<open>A call that lacks a required property is answered with the validation error.\<close>

lemma missing_required_rejected:
  assumes "map_of list_tools name = Some sch" "k \<in> set (required sch)" "\<not> py_in k arguments"
  shows "registered_call_tool E st name arguments = (InputValidationError, st)"
proof -
  from assms(2,3) have "\<not> list_all (\<lambda>k. py_in k arguments) (required sch)"
    unfolding list_all_iff by blast
  then have "\<not> valid sch arguments"
    by (simp add: valid_def)
  with assms(1) show ?thesis
    by (simp add: registered_call_tool_def)
qed

text \<open>
  C4. For every declared tool and every argument object with a property that the
  schema of the tool does not declare, the validation fails and the registered handler
  answers with the validation error: \<^verbatim>\<open>call_tool\<close> does not run on these arguments, and
  the state is as it was. On arguments that are valid for the schema the answer is
  that of \<^verbatim>\<open>call_tool\<close>.
\<close>

theorem undeclared_property_rejected:
  "(map_of list_tools name = Some sch \<and> py_in k arguments
      \<and> k \<notin> set (map fst (properties sch)) \<longrightarrow>
        \<not> valid sch arguments
        \<and> registered_call_tool E st name arguments = (InputValidationError, st))
   \<and> (map_of list_tools name = Some sch \<and> valid sch arguments \<longrightarrow>
        registered_call_tool E st name arguments
          = (Completed (fst (call_tool E st name arguments)),
             snd (call_tool E st name arguments)))"
  using undeclared_invalid[of name sch k arguments]
  by (auto simp: registered_call_tool_def)

theorem undeclared_property_rejected_witness:
  "registered_call_tool example_env example_state ''filter_cars''
     [(''colour'', PStr ''red''), (''limit'', PInt 1)] = (InputValidationError, example_state)
   \<and> registered_call_tool example_env example_state ''filter_cars'' [(''limit'', PInt 1)]
       = (Completed (Inr (Result (PDict [(''count'', PInt 1),
                                         (''results'', PList [to_dict filter_cars_cols honda])]))),
          example_state)"
proof
  obtain sch where s: "map_of list_tools ''filter_cars'' = Some sch"
    and p: "map fst (properties sch)
              = [''Car Make'', ''Car Model'', ''Year_min'', ''Year_max'', ''Price_max'',
                 ''Mileage_max'', ''Fuel Type'', ''Transmission'', ''Condition'', ''Accident'',
                 ''limit'']"
    by (simp add: list_tools_def)
  have k: "py_in ''colour'' [(''colour'', PStr ''red''), (''limit'', PInt 1)]"
    by (simp add: py_in_def)
  from p have u: "''colour'' \<notin> set (map fst (properties sch))"
    by simp
  from undeclared_property_rejected[of "''filter_cars''" sch "''colour''"
      "[(''colour'', PStr ''red''), (''limit'', PInt 1)]" example_env example_state] s k u
  show "registered_call_tool example_env example_state ''filter_cars''
     [(''colour'', PStr ''red''), (''limit'', PInt 1)] = (InputValidationError, example_state)"
    by blast
  have v: "valid sch [(''limit'', PInt 1)]"
    using s by (auto simp: list_tools_def valid_def conforms_def py_in_def integer_prop_def
        string_prop_def number_prop_def yes_no_prop_def)
  have c: "call_tool example_env example_state ''filter_cars'' [(''limit'', PInt 1)]
       = (Inr (Result (PDict [(''count'', PInt 1),
                              (''results'', PList [to_dict filter_cars_cols honda])])),
          example_state)"
    by code_simp
  from undeclared_property_rejected[of "''filter_cars''" sch _ "[(''limit'', PInt 1)]"
      example_env example_state] s v
  have "registered_call_tool example_env example_state ''filter_cars'' [(''limit'', PInt 1)]
          = (Completed (fst (call_tool example_env example_state ''filter_cars''
                               [(''limit'', PInt 1)])),
             snd (call_tool example_env example_state ''filter_cars'' [(''limit'', PInt 1)]))"
    by blast
  then show "registered_call_tool example_env example_state ''filter_cars'' [(''limit'', PInt 1)]
       = (Completed (Inr (Result (PDict [(''count'', PInt 1),
                                         (''results'', PList [to_dict filter_cars_cols honda])]))),
          example_state)"
    by (simp add: c)
qed

subsection \<open>Estimation\<close>




text \<open>The model that the initialisation stores is fitted on the cleaned table.\<close>

lemma init_fits:
  assumes "init_data_and_model E st = Inr st'"
  shows "\<exists>d m. df st' = Some d \<and> model st' = Some m \<and> fit E IgnoreUnknown d = Inr m
           \<and> feature_columns st' = Some (feature_cols_numeric @ map fst feature_cols_categ)"
  using assms
  by (auto simp: init_data_and_model_def bind_def Let_def split: sum.splits)






end
